theory Spec2Isabelle
  imports Complex_Main "HOL-Library.Product_Lexorder" "HOL-Library.Multiset"
begin

section \<open>Library interfaces\<close>

text \<open>
  The analyser is Python. Three things it calls are not part of the repository: the
  regular-expression module \<^verbatim>\<open>re\<close>, the built-in \<^verbatim>\<open>open(...).read()\<close> and the parser
  \<^verbatim>\<open>ast.parse\<close>. Each is a parameter of the model, so every theorem below holds for any
  regular-expression engine, any file system and any parser.

  A match object is the pair of what the code reads from it: \<^verbatim>\<open>match.start()\<close> and
  \<^verbatim>\<open>match.group(0)\<close>. \<^verbatim>\<open>re.finditer\<close> yields the matches from left to right,
  \<^verbatim>\<open>re.search\<close> is used for its truth value only.
\<close>

record re_match =
  start :: nat
  group0 :: string

record re_module =
  finditer :: "string \<Rightarrow> string \<Rightarrow> re_match list"
  search :: "string \<Rightarrow> string \<Rightarrow> bool"

text \<open>Exceptions that reach the caller: a failed read, a failed parse.\<close>

datatype exn = OSError | UnicodeDecodeError | SyntaxError

type_synonym file_reader = "string \<Rightarrow> exn + string"

text \<open>
  Strings are character lists. A Python raw string keeps its backslashes, and a
  backslash cannot be written inside a string literal here, so the patterns are spelled with
  \<open>BS\<close> between the pieces: \<^verbatim>\<open>r'os\.getenv'\<close> is \<open>''os'' @ BS # ''.getenv''\<close>.
\<close>

abbreviation BS :: char where
  \<open>BS \<equiv> CHR 0x5C\<close>

abbreviation NL :: char where
  \<open>NL \<equiv> CHR 0x0A\<close>

text \<open>\<^verbatim>\<open>s.count(c, lo, hi)\<close> for a one-character \<open>c\<close>: its occurrences in \<^verbatim>\<open>s[lo:hi]\<close>.\<close>

definition str_count :: "string \<Rightarrow> char \<Rightarrow> nat \<Rightarrow> nat \<Rightarrow> nat" where
  \<open>str_count s c lo hi = length (filter (\<lambda>x. x = c) (drop lo (take hi s)))\<close>

text \<open>\<^verbatim>\<open>sub in s\<close> on strings.\<close>

fun startswith :: "string \<Rightarrow> string \<Rightarrow> bool" where
  \<open>startswith s [] = True\<close>
| \<open>startswith [] (p # ps) = False\<close>
| \<open>startswith (c # cs) (p # ps) = (c = p \<and> startswith cs ps)\<close>

fun str_in :: "string \<Rightarrow> string \<Rightarrow> bool" where
  \<open>str_in sub [] = (sub = [])\<close>
| \<open>str_in sub (c # cs) = (startswith (c # cs) sub \<or> str_in sub cs)\<close>

text \<open>
  \<^verbatim>\<open>s.lower()\<close>. Only the letters A to Z are mapped: no other character lowers to one of
  \<open>t\<close>, \<open>e\<close>, \<open>s\<close>, which is all the one caller below looks for.
\<close>

definition lower_char :: "char \<Rightarrow> char" where
  \<open>lower_char c =
     (case map_of (zip ''ABCDEFGHIJKLMNOPQRSTUVWXYZ'' ''abcdefghijklmnopqrstuvwxyz'') c of
        Some l \<Rightarrow> l
      | None \<Rightarrow> c)\<close>

definition lower :: "string \<Rightarrow> string" where
  \<open>lower s = map lower_char s\<close>

section \<open>code_analyzer.py: the data\<close>

text \<open>
  A rule is a dictionary with the keys \<^verbatim>\<open>pattern\<close>, \<^verbatim>\<open>severity\<close>, \<^verbatim>\<open>description\<close>,
  \<^verbatim>\<open>fix\<close>; the security rules also have \<^verbatim>\<open>safe_pattern\<close>, a pattern or \<^verbatim>\<open>None\<close>.
  The tables are dictionaries iterated with \<^verbatim>\<open>.items()\<close>, that is in insertion order:
  association lists.
\<close>

record rule =
  r_pattern :: string
  r_severity :: string
  r_description :: string
  r_fix :: string

record security_rule = rule +
  r_safe_pattern :: "string option"

record CodeAnalyzer =
  security_patterns :: "(string \<times> security_rule) list"
  resource_patterns :: "(string \<times> rule) list"
  framework_patterns :: "(string \<times> (string \<times> rule) list) list"

text \<open>The dictionary appended to \<^verbatim>\<open>issues\<close>, and the one handed to the scorer.\<close>

record issue =
  i_type :: string
  i_severity :: string
  i_description :: string
  i_line :: nat
  i_proof :: string
  i_fix :: string
  i_confidence :: real

record scored_issue =
  s_type :: string
  s_severity :: string
  s_proof :: string
  s_file :: string

text \<open>\<^verbatim>\<open>CodeAnalyzer.__init__\<close> (lines 7 to 129).\<close>

definition init_security_patterns :: "(string \<times> security_rule) list" where
  \<open>init_security_patterns = [
     (''hardcoded_secrets'', \<lparr>
        r_pattern = ''(?:password|api_key|secret|token|JWT_SECRET)'' @ BS # ''s*='' @ BS # ''s*["'' @ BS # ''\'][^"'' @ BS # ''\']+["'' @ BS # ''\']'',
        r_severity = ''Critical'',
        r_description = ''Hardcoded credentials in code'',
        r_fix = ''Use environment variables or secure vault'',
        r_safe_pattern = Some (''(?:os'' @ BS # ''.getenv|process'' @ BS # ''.env|config'' @ BS # ''.get)'' @ BS # ''('')\<rparr>),
     (''sql_injection'', \<lparr>
        r_pattern = ''(?:SELECT|INSERT|UPDATE|DELETE).*?['' @ BS # ''\'"`]'' @ BS # ''s*'' @ BS # ''{.*?'' @ BS # ''}|(?:SELECT|INSERT|UPDATE|DELETE).*?['' @ BS # ''\'"`].*?'' @ BS # ''$'' @ BS # ''{.*?'' @ BS # ''}'',
        r_severity = ''Critical'',
        r_description = ''SQL injection vulnerability'',
        r_fix = ''Use parameterized queries'',
        r_safe_pattern = Some (''(?:parameterize|prepare|execute|cursor'' @ BS # ''.execute'' @ BS # ''([^,]+,'' @ BS # ''s*'' @ BS # ''()'')\<rparr>),
     (''command_injection'', \<lparr>
        r_pattern = ''(?:os'' @ BS # ''.system|subprocess'' @ BS # ''.run|exec|eval)'' @ BS # ''(["'' @ BS # ''\'].*?(?:'' @ BS # ''{.*?'' @ BS # ''}|'' @ BS # ''$'' @ BS # ''{.*?'' @ BS # ''}).*?["'' @ BS # ''\']'',
        r_severity = ''Critical'',
        r_description = ''Command injection vulnerability'',
        r_fix = ''Use subprocess.run with args list'',
        r_safe_pattern = None\<rparr>),
     (''xss'', \<lparr>
        r_pattern = ''(?:innerHTML|outerHTML)'' @ BS # ''s*=|dangerouslySetInnerHTML|render_template_string'',
        r_severity = ''Critical'',
        r_description = ''Cross-site scripting vulnerability'',
        r_fix = ''Use safe content handling methods'',
        r_safe_pattern = Some ''textContent|innerText''\<rparr>),
     (''insecure_deserialization'', \<lparr>
        r_pattern = ''(?:pickle'' @ BS # ''.loads|yaml'' @ BS # ''.load|eval'' @ BS # ''(["'' @ BS # ''\'])|new'' @ BS # ''s+Function'' @ BS # ''('',
        r_severity = ''Critical'',
        r_description = ''Insecure deserialization'',
        r_fix = ''Use safe deserialization methods'',
        r_safe_pattern = None\<rparr>),
     (''path_traversal'', \<lparr>
        r_pattern = ''(?:open|readFile|writeFile)'' @ BS # ''s*'' @ BS # ''([^)]*?(?:req'' @ BS # ''.(?:params|query|body)|user).*?'' @ BS # '')'',
        r_severity = ''Critical'',
        r_description = ''Path traversal vulnerability'',
        r_fix = ''Validate and sanitize file paths'',
        r_safe_pattern = None\<rparr>),
     (''weak_crypto'', \<lparr>
        r_pattern = ''(?:md5|sha1)'' @ BS # ''('',
        r_severity = ''Critical'',
        r_description = ''Weak cryptographic algorithm'',
        r_fix = ''Use strong cryptographic algorithms'',
        r_safe_pattern = None\<rparr>)]\<close>

definition init_resource_patterns :: "(string \<times> rule) list" where
  \<open>init_resource_patterns = [
     (''file_leaks'', \<lparr>
        r_pattern = ''open'' @ BS # ''([^)]+'' @ BS # '')(?!.*?with)'',
        r_severity = ''High'',
        r_description = ''File resource leak'',
        r_fix = ''Use with statement''\<rparr>),
     (''memory_leaks'', \<lparr>
        r_pattern = ''(?:append|extend|add)'' @ BS # ''([^)]*'' @ BS # '')(?!.*?limit|.*?max)'',
        r_severity = ''High'',
        r_description = ''Unbounded collection growth'',
        r_fix = ''Add size limit''\<rparr>)]\<close>

definition init_react_patterns :: "(string \<times> rule) list" where
  \<open>init_react_patterns = [
     (''hook_rules'', \<lparr>
        r_pattern = ''(?:if|for|while).*?use[A-Z]|(?:if|for|while).*?'' @ BS # ''{.*?use[A-Z]'',
        r_severity = ''Critical'',
        r_description = ''Hook rules violation'',
        r_fix = ''Move hook to component top level''\<rparr>),
     (''effect_deps'', \<lparr>
        r_pattern = ''useEffect'' @ BS # ''([^,]+,'' @ BS # ''s*'' @ BS # ''['' @ BS # ''s*'' @ BS # '']'' @ BS # ''s*'' @ BS # '')|useEffect'' @ BS # ''([^,]+,[^]]+'' @ BS # ''].*?(?!props|state)'',
        r_severity = ''High'',
        r_description = ''Missing effect dependencies'',
        r_fix = ''Add required dependencies''\<rparr>),
     (''memory_leak'', \<lparr>
        r_pattern = ''useEffect'' @ BS # ''([^{]*'' @ BS # ''{[^}]*(?:addEventListener|subscribe)[^}]*'' @ BS # ''}[^,]*'' @ BS # '')'',
        r_severity = ''High'',
        r_description = ''Effect missing cleanup'',
        r_fix = ''Return cleanup function from effect''\<rparr>),
     (''unsafe_html'', \<lparr>
        r_pattern = ''dangerouslySetInnerHTML'' @ BS # ''s*='' @ BS # ''s*'' @ BS # ''{'',
        r_severity = ''Critical'',
        r_description = ''Unsafe HTML injection'',
        r_fix = ''Use safe content rendering methods''\<rparr>),
     (''state_update'', \<lparr>
        r_pattern = ''set'' @ BS # ''w+'' @ BS # ''([^(]*'' @ BS # ''w+'' @ BS # ''s*[+'' @ BS # ''-*/]'' @ BS # ''s*'' @ BS # ''w+'' @ BS # '')'',
        r_severity = ''Medium'',
        r_description = ''State update using stale value'',
        r_fix = ''Use functional update form''\<rparr>)]\<close>

definition init_express_patterns :: "(string \<times> rule) list" where
  \<open>init_express_patterns = [
     (''error_handling'', \<lparr>
        r_pattern = ''catch'' @ BS # ''s*'' @ BS # ''([^)]*'' @ BS # '')'' @ BS # ''s*{'' @ BS # ''s*console'' @ BS # ''.|catch'' @ BS # ''s*'' @ BS # ''([^)]*'' @ BS # '')'' @ BS # ''s*{'' @ BS # ''s*res'' @ BS # ''.'',
        r_severity = ''High'',
        r_description = ''Error only logged, not handled'',
        r_fix = ''Properly handle or propagate error''\<rparr>),
     (''no_validation'', \<lparr>
        r_pattern = ''req'' @ BS # ''.(?:body|params|query)'' @ BS # ''.[^'' @ BS # ''s]+(?!.*validate)'',
        r_severity = ''High'',
        r_description = ''Missing input validation'',
        r_fix = ''Add input validation''\<rparr>),
     (''sync_code'', \<lparr>
        r_pattern = ''app'' @ BS # ''.(get|post|put|delete)'' @ BS # ''([^,]+,'' @ BS # ''s*function'' @ BS # ''s*'' @ BS # ''([^)]*'' @ BS # '')'' @ BS # ''s*{[^}]*await'',
        r_severity = ''High'',
        r_description = ''Sync function with async code'',
        r_fix = ''Add async keyword to function''\<rparr>)]\<close>

definition CodeAnalyzer_init :: CodeAnalyzer where
  \<open>CodeAnalyzer_init = \<lparr>
     security_patterns = init_security_patterns,
     resource_patterns = init_resource_patterns,
     framework_patterns = [(''react'', init_react_patterns), (''express'', init_express_patterns)]\<rparr>\<close>

section \<open>code_analyzer.py: the operations\<close>

text \<open>\<^verbatim>\<open>_has_safe_pattern\<close> (lines 256 to 271).\<close>

definition safe_patterns :: "(string \<times> string list) list" where
  \<open>safe_patterns = [
     (''hardcoded_secrets'', [
        ''os'' @ BS # ''.getenv'',
        ''process'' @ BS # ''.env'',
        ''config'' @ BS # ''.get'']),
     (''sql_injection'', [
        ''parameterize'' @ BS # ''('',
        ''cursor'' @ BS # ''.execute'' @ BS # ''([^,]+,'' @ BS # ''s*'' @ BS # ''(''])]\<close>

definition has_safe_pattern :: "re_module \<Rightarrow> scored_issue \<Rightarrow> bool" where
  \<open>has_safe_pattern re issue =
     (let patterns = (case map_of safe_patterns (s_type issue) of Some ps \<Rightarrow> ps | None \<Rightarrow> [])
      in list_ex (\<lambda>p. search re p (s_proof issue)) patterns)\<close>

text \<open>
  \<^verbatim>\<open>_calculate_confidence\<close> (lines 234 to 254). The Python floats are read as the real
  numbers their literals denote.
\<close>

definition severity_base :: "string \<Rightarrow> real" where
  \<open>severity_base severity =
     (case map_of [(''Critical'', 0.95), (''High'', 0.85), (''Medium'', 0.75), (''Low'', 0.65)] severity of
        Some b \<Rightarrow> b
      | None \<Rightarrow> 0.5)\<close>

definition calculate_confidence :: "re_module \<Rightarrow> scored_issue \<Rightarrow> real" where
  \<open>calculate_confidence re issue =
     (let confidence = 1.0;
          confidence = confidence * severity_base (s_severity issue);
          confidence = (if str_in ''test'' (lower (s_file issue)) then confidence * 0.5 else confidence);
          confidence = (if has_safe_pattern re issue then confidence * 0.3 else confidence)
      in confidence)\<close>

text \<open>\<^verbatim>\<open>_detect_framework\<close> (lines 220 to 232); \<open>None\<close> is Python's \<^verbatim>\<open>None\<close>.\<close>

definition frameworks :: "(string \<times> string) list" where
  \<open>frameworks = [
     (''react'', ''(?:import.*?react|from'' @ BS # ''s+["'' @ BS # ''\']react["'' @ BS # ''\'])''),
     (''express'', ''(?:import.*?express|require'' @ BS # ''(["'' @ BS # ''\']express["'' @ BS # ''\'])''),
     (''django'', ''(?:from'' @ BS # ''s+django|import'' @ BS # ''s+django)''),
     (''flask'', ''(?:from'' @ BS # ''s+flask'' @ BS # ''s+import|import'' @ BS # ''s+flask)'')]\<close>

fun detect_loop :: "re_module \<Rightarrow> string \<Rightarrow> (string \<times> string) list \<Rightarrow> string option" where
  \<open>detect_loop re content [] = None\<close>
| \<open>detect_loop re content ((framework, pattern) # rest) =
     (if search re pattern content then Some framework else detect_loop re content rest)\<close>

definition detect_framework :: "re_module \<Rightarrow> string \<Rightarrow> string option" where
  \<open>detect_framework re content = detect_loop re content frameworks\<close>

text \<open>
  \<^verbatim>\<open>analyze_file\<close> (lines 131 to 207). The dictionary built on lines 150 to 163 is built
  again, key for key, on lines 169 to 182 and 189 to 202. Line 140 computes \<^verbatim>\<open>file_type\<close>
  from the extension of the path; nothing reads it afterwards, and it is left out.
\<close>

definition make_issue ::
  "re_module \<Rightarrow> string \<Rightarrow> 'a rule_scheme \<Rightarrow> string \<Rightarrow> string \<Rightarrow> re_match \<Rightarrow> issue" where
  \<open>make_issue re name pattern file_path content match = \<lparr>
     i_type = name,
     i_severity = r_severity pattern,
     i_description = r_description pattern,
     i_line = str_count content NL 0 (start match) + 1,
     i_proof = group0 match,
     i_fix = r_fix pattern,
     i_confidence = calculate_confidence re \<lparr>
       s_type = name,
       s_severity = r_severity pattern,
       s_proof = group0 match,
       s_file = file_path\<rparr>\<rparr>\<close>

text \<open>
  Line 147: \<^verbatim>\<open>pattern.get('safe_pattern') and re.search(pattern['safe_pattern'], content)\<close>.
  \<^verbatim>\<open>None\<close> and the empty string are false.
\<close>

definition safe_pattern_found :: "re_module \<Rightarrow> security_rule \<Rightarrow> string \<Rightarrow> bool" where
  \<open>safe_pattern_found re pattern content =
     (case r_safe_pattern pattern of
        None \<Rightarrow> False
      | Some sp \<Rightarrow> sp \<noteq> [] \<and> search re sp content)\<close>

definition check_security_patterns :: "re_module \<Rightarrow> CodeAnalyzer \<Rightarrow> string \<Rightarrow> string \<Rightarrow> issue list" where
  \<open>check_security_patterns re self file_path content =
     concat (map (\<lambda>(name, pattern).
         map (make_issue re name pattern file_path content)
           (filter (\<lambda>match. \<not> safe_pattern_found re pattern content)
              (finditer re (r_pattern pattern) content)))
       (security_patterns self))\<close>

definition check_resource_patterns :: "re_module \<Rightarrow> CodeAnalyzer \<Rightarrow> string \<Rightarrow> string \<Rightarrow> issue list" where
  \<open>check_resource_patterns re self file_path content =
     concat (map (\<lambda>(name, pattern).
         map (make_issue re name pattern file_path content)
           (finditer re (r_pattern pattern) content))
       (resource_patterns self))\<close>

text \<open>Line 185: \<^verbatim>\<open>if framework and framework in self.framework_patterns\<close>.\<close>

definition check_framework_patterns ::
  "re_module \<Rightarrow> CodeAnalyzer \<Rightarrow> string option \<Rightarrow> string \<Rightarrow> string \<Rightarrow> issue list" where
  \<open>check_framework_patterns re self framework file_path content =
     (case framework of
        None \<Rightarrow> []
      | Some fw \<Rightarrow>
          (if fw \<noteq> [] then
             (case map_of (framework_patterns self) fw of
                None \<Rightarrow> []
              | Some rules \<Rightarrow>
                  concat (map (\<lambda>(name, pattern).
                      map (make_issue re name pattern file_path content)
                        (finditer re (r_pattern pattern) content))
                    rules))
           else []))\<close>

text \<open>
  Lines 204 to 207: \<^verbatim>\<open>sorted\<close> is a stable sort on the key, a pair compared
  lexicographically.
\<close>

definition severity_rank :: "string \<Rightarrow> nat" where
  \<open>severity_rank severity =
     (case map_of [(''Critical'', 0), (''High'', 1), (''Medium'', 2), (''Low'', 3)] severity of
        Some r \<Rightarrow> r
      | None \<Rightarrow> 4)\<close>

definition issue_key :: "issue \<Rightarrow> nat \<times> real" where
  \<open>issue_key x = (severity_rank (i_severity x), - i_confidence x)\<close>

definition sorted_issues :: "issue list \<Rightarrow> issue list" where
  \<open>sorted_issues issues = sort_key issue_key issues\<close>

text \<open>The list \<^verbatim>\<open>issues\<close> when line 204 is reached, in the order of the appends.\<close>

definition collect_issues :: "re_module \<Rightarrow> CodeAnalyzer \<Rightarrow> string \<Rightarrow> string \<Rightarrow> issue list" where
  \<open>collect_issues re self file_path content =
     (let framework = detect_framework re content
      in check_security_patterns re self file_path content
         @ check_resource_patterns re self file_path content
         @ check_framework_patterns re self framework file_path content)\<close>

definition analyze_file :: "re_module \<Rightarrow> file_reader \<Rightarrow> CodeAnalyzer \<Rightarrow> string \<Rightarrow> exn + issue list" where
  \<open>analyze_file re read_file self file_path =
     (case read_file file_path of
        Inl e \<Rightarrow> Inl e
      | Inr content \<Rightarrow> Inr (sorted_issues (collect_issues re self file_path content)))\<close>

subsection \<open>The method body, statement by statement\<close>

text \<open>
  The same method once more, now as the sequence of its statements acting on a store, so
  that what a call writes and what it only reads can be stated. The store holds the analyser
  object \<^verbatim>\<open>self\<close> and the variables the body assigns: \<^verbatim>\<open>issues\<close>, \<^verbatim>\<open>content\<close> and
  \<^verbatim>\<open>framework\<close>. A call starts on whatever the store holds; the fresh locals of a real
  call are one such store.

  Line 133 assigns the empty list to \<^verbatim>\<open>issues\<close>, lines 136 and 137 assign \<^verbatim>\<open>content\<close>
  (or the read raises and the call ends there), line 141 assigns \<^verbatim>\<open>framework\<close>. Each loop
  takes the items of its table from \<^verbatim>\<open>self\<close> when it starts; each pass of an inner loop
  reads \<^verbatim>\<open>content\<close> and either continues or appends one dictionary to \<^verbatim>\<open>issues\<close>. The
  dictionary is new and its values are strings and numbers, so it shares nothing with the
  rule it was built from. Line 204 returns the sorted copy of \<^verbatim>\<open>issues\<close>.
\<close>

record store =
  v_self :: CodeAnalyzer
  v_issues :: "issue list"
  v_content :: string
  v_framework :: "string option"

definition append_issue :: "issue \<Rightarrow> store \<Rightarrow> store" where
  \<open>append_issue i s = s\<lparr>v_issues := v_issues s @ [i]\<rparr>\<close>

definition security_loop :: "re_module \<Rightarrow> string \<Rightarrow> store \<Rightarrow> store" where
  \<open>security_loop re file_path s =
     fold (\<lambda>(name, pattern) s.
         fold (\<lambda>match s.
             if safe_pattern_found re pattern (v_content s) then s
             else append_issue (make_issue re name pattern file_path (v_content s) match) s)
           (finditer re (r_pattern pattern) (v_content s)) s)
       (security_patterns (v_self s)) s\<close>

definition resource_loop :: "re_module \<Rightarrow> string \<Rightarrow> store \<Rightarrow> store" where
  \<open>resource_loop re file_path s =
     fold (\<lambda>(name, pattern) s.
         fold (\<lambda>match s.
             append_issue (make_issue re name pattern file_path (v_content s) match) s)
           (finditer re (r_pattern pattern) (v_content s)) s)
       (resource_patterns (v_self s)) s\<close>

definition framework_loop :: "re_module \<Rightarrow> string \<Rightarrow> store \<Rightarrow> store" where
  \<open>framework_loop re file_path s =
     (case v_framework s of
        None \<Rightarrow> s
      | Some fw \<Rightarrow>
          (if fw \<noteq> [] then
             (case map_of (framework_patterns (v_self s)) fw of
                None \<Rightarrow> s
              | Some rules \<Rightarrow>
                  fold (\<lambda>(name, pattern) s.
                      fold (\<lambda>match s.
                          append_issue (make_issue re name pattern file_path (v_content s) match) s)
                        (finditer re (r_pattern pattern) (v_content s)) s)
                    rules s)
           else s))\<close>

definition run_analyze_file ::
  "re_module \<Rightarrow> file_reader \<Rightarrow> string \<Rightarrow> store \<Rightarrow> (exn + issue list) \<times> store" where
  \<open>run_analyze_file re read_file file_path s =
     (let s = s\<lparr>v_issues := []\<rparr>
      in case read_file file_path of
           Inl e \<Rightarrow> (Inl e, s)
         | Inr content \<Rightarrow>
             (let s = s\<lparr>v_content := content\<rparr>;
                  s = s\<lparr>v_framework := detect_framework re (v_content s)\<rparr>;
                  s = security_loop re file_path s;
                  s = resource_loop re file_path s;
                  s = framework_loop re file_path s
              in (Inr (sorted_issues (v_issues s)), s)))\<close>

text \<open>
  \<open>n\<close> calls one after the other on the same path, each on the store the call before it
  left, with what they return.
\<close>

fun run_analyze_file_times ::
  "nat \<Rightarrow> re_module \<Rightarrow> file_reader \<Rightarrow> string \<Rightarrow> store \<Rightarrow> (exn + issue list) list \<times> store" where
  \<open>run_analyze_file_times 0 re read_file file_path s = ([], s)\<close>
| \<open>run_analyze_file_times (Suc n) re read_file file_path s =
     (let (result, s') = run_analyze_file re read_file file_path s;
          (results, s'') = run_analyze_file_times n re read_file file_path s'
      in (result # results, s''))\<close>

section \<open>code_analysis_patterns.py\<close>

text \<open>
  The three pattern dictionaries of \<^verbatim>\<open>SecurityPatternChecker.__init__\<close> (lines 6 to 23)
  are read by literal key only: records, one field per key.
\<close>

record credential_patterns =
  cp_hardcoded_secrets :: string
  cp_safe_patterns :: string

record injection_patterns =
  ip_sql_injection :: string
  ip_command_injection :: string
  ip_shell_injection :: string

record checker_resource_patterns =
  rp_file_leaks :: string
  rp_infinite_loops :: string
  rp_memory_leaks :: string

record SecurityPatternChecker =
  spc_credential_patterns :: credential_patterns
  spc_injection_patterns :: injection_patterns
  spc_resource_patterns :: checker_resource_patterns

definition SecurityPatternChecker_init :: SecurityPatternChecker where
  \<open>SecurityPatternChecker_init = \<lparr>
     spc_credential_patterns = \<lparr>
       cp_hardcoded_secrets = ''(?:password|api_key|secret|token|key)'' @ BS # ''s*='' @ BS # ''s*["'' @ BS # ''\'][^"'' @ BS # ''\']+["'' @ BS # ''\']'',
       cp_safe_patterns = ''(?:os'' @ BS # ''.getenv|process'' @ BS # ''.env|config'' @ BS # ''.get|secrets'' @ BS # ''.get)'' @ BS # ''(["'' @ BS # ''\'][^"'' @ BS # ''\']+["'' @ BS # ''\']'' @ BS # '')''\<rparr>,
     spc_injection_patterns = \<lparr>
       ip_sql_injection = ''f["'' @ BS # ''\'].*?'' @ BS # ''{.*?'' @ BS # ''}.*?(?:SELECT|INSERT|UPDATE|DELETE).*?["'' @ BS # ''\']'',
       ip_command_injection = ''(?:os'' @ BS # ''.system|subprocess'' @ BS # ''.run|subprocess'' @ BS # ''.Popen)'' @ BS # ''(["'' @ BS # ''\'].*?'' @ BS # ''{.*?'' @ BS # ''}.*?["'' @ BS # ''\'].*?'' @ BS # '')'',
       ip_shell_injection = ''shell'' @ BS # ''s*='' @ BS # ''s*True''\<rparr>,
     spc_resource_patterns = \<lparr>
       rp_file_leaks = ''open'' @ BS # ''([^)]+'' @ BS # '')(?!.*?with)'',
       rp_infinite_loops = ''while'' @ BS # ''s+True:(?!.*?break)'',
       rp_memory_leaks = ''(?:append|extend|add)'' @ BS # ''([^)]*'' @ BS # '')(?!.*?limit|.*?max)''\<rparr>\<rparr>\<close>

text \<open>
  The issues of this module are dictionaries from strings to strings, written in key
  order. \<^verbatim>\<open>f'Line {n}'\<close> needs the decimal digits of \<open>n\<close>.
\<close>

type_synonym issue_dict = "(string \<times> string) list"

fun str_of_nat :: "nat \<Rightarrow> string" where
  \<open>str_of_nat n =
     (if n < 10 then [''0123456789'' ! n]
      else str_of_nat (n div 10) @ [''0123456789'' ! (n mod 10)])\<close>

definition location_of :: "string \<Rightarrow> re_match \<Rightarrow> string" where
  \<open>location_of code match = ''Line '' @ str_of_nat (str_count code NL 0 (start match) + 1)\<close>

text \<open>\<^verbatim>\<open>check_credentials\<close> (lines 25 to 41).\<close>

definition check_credentials :: "re_module \<Rightarrow> SecurityPatternChecker \<Rightarrow> string \<Rightarrow> issue_dict list" where
  \<open>check_credentials re self code =
     map (\<lambda>match. [
         (''severity'', ''Critical''),
         (''category'', ''Security''),
         (''type'', ''Hardcoded secrets''),
         (''location'', location_of code match),
         (''description'', ''Hardcoded credential found in code''),
         (''proof'', group0 match),
         (''fix'', ''Use environment variables or secure secret storage'')])
       (finditer re (cp_hardcoded_secrets (spc_credential_patterns self)) code)\<close>

text \<open>\<^verbatim>\<open>check_injections\<close> (lines 43 to 71).\<close>

definition check_injections :: "re_module \<Rightarrow> SecurityPatternChecker \<Rightarrow> string \<Rightarrow> issue_dict list" where
  \<open>check_injections re self code =
     map (\<lambda>match. [
         (''severity'', ''Critical''),
         (''category'', ''Security''),
         (''type'', ''SQL Injection''),
         (''location'', location_of code match),
         (''description'', ''Potential SQL injection through string formatting''),
         (''proof'', group0 match),
         (''fix'', ''Use parameterized queries'')])
       (finditer re (ip_sql_injection (spc_injection_patterns self)) code)
     @ map (\<lambda>match. [
         (''severity'', ''Critical''),
         (''category'', ''Security''),
         (''type'', ''Command Injection''),
         (''location'', location_of code match),
         (''description'', ''Potential command injection through string formatting''),
         (''proof'', group0 match),
         (''fix'', ''Use subprocess.run with a list of arguments'')])
       (finditer re (ip_command_injection (spc_injection_patterns self)) code)\<close>

text \<open>\<^verbatim>\<open>check_resources\<close> (lines 73 to 101).\<close>

definition check_resources :: "re_module \<Rightarrow> SecurityPatternChecker \<Rightarrow> string \<Rightarrow> issue_dict list" where
  \<open>check_resources re self code =
     map (\<lambda>match. [
         (''severity'', ''High''),
         (''category'', ''Code Quality''),
         (''type'', ''Resource leak''),
         (''location'', location_of code match),
         (''description'', ''File opened without using context manager''),
         (''proof'', group0 match),
         (''fix'', ''Use "with open(...) as f:" pattern'')])
       (finditer re (rp_file_leaks (spc_resource_patterns self)) code)
     @ map (\<lambda>match. [
         (''severity'', ''High''),
         (''category'', ''Logic''),
         (''type'', ''Infinite loop''),
         (''location'', location_of code match),
         (''description'', ''Potential infinite loop without break condition''),
         (''proof'', group0 match),
         (''fix'', ''Add proper exit condition'')])
       (finditer re (rp_infinite_loops (spc_resource_patterns self)) code)\<close>

subsection \<open>The structural checker\<close>

text \<open>
  Of a syntax tree the checker reads the class of each node, \<^verbatim>\<open>lineno\<close> of an
  \<^verbatim>\<open>Attribute\<close> or \<^verbatim>\<open>ExceptHandler\<close> node, and whether the \<^verbatim>\<open>type\<close> of an
  \<^verbatim>\<open>ExceptHandler\<close> is \<^verbatim>\<open>None\<close>. \<^verbatim>\<open>ast.walk\<close> takes the nodes breadth first: it pops
  the first node of a queue and appends that node's children.
\<close>

datatype ast_class =
  Attribute (lineno: nat)
| ExceptHandler (type_is_None: bool) (lineno: nat)
| OtherNode

datatype ast_node = Node (cls: ast_class) (children: "ast_node list")

type_synonym parser = "string \<Rightarrow> exn + ast_node"

function walk_todo :: "ast_node list \<Rightarrow> ast_node list" where
  \<open>walk_todo [] = []\<close>
| \<open>walk_todo (node # todo) = node # walk_todo (todo @ children node)\<close>
  by pat_completeness auto
termination
proof (relation "measure (\<lambda>todo. sum_list (map size todo))")
  show "wf (measure (\<lambda>todo. sum_list (map size todo)))"
    by simp
next
  fix node :: ast_node and todo :: "ast_node list"
  have "sum_list (map size (children node)) < size node"
    by (cases node) (simp add: size_list_conv_sum_list)
  then show "(todo @ children node, node # todo) \<in> measure (\<lambda>todo. sum_list (map size todo))"
    by simp
qed

definition walk :: "ast_node \<Rightarrow> ast_node list" where
  \<open>walk tree = walk_todo [tree]\<close>

text \<open>\<^verbatim>\<open>check_null_pointers\<close> (lines 104 to 121): no \<^verbatim>\<open>try\<close> around the parse.\<close>

definition null_pointer_issue :: "ast_node \<Rightarrow> issue_dict list" where
  \<open>null_pointer_issue node =
     (case cls node of
        Attribute line \<Rightarrow> [[
          (''severity'', ''High''),
          (''category'', ''Logic''),
          (''type'', ''Null pointer''),
          (''location'', ''Line '' @ str_of_nat line),
          (''description'', ''Potential null pointer dereference''),
          (''fix'', ''Add null check before accessing attribute'')]]
      | _ \<Rightarrow> [])\<close>

definition check_null_pointers :: "parser \<Rightarrow> string \<Rightarrow> exn + issue_dict list" where
  \<open>check_null_pointers ast_parse code =
     (case ast_parse code of
        Inl e \<Rightarrow> Inl e
      | Inr tree \<Rightarrow> Inr (concat (map null_pointer_issue (walk tree))))\<close>

text \<open>\<^verbatim>\<open>check_error_handling\<close> (lines 123 to 140).\<close>

definition error_handling_issue :: "ast_node \<Rightarrow> issue_dict list" where
  \<open>error_handling_issue node =
     (case cls node of
        ExceptHandler no_type line \<Rightarrow>
          (if no_type then [[
             (''severity'', ''Medium''),
             (''category'', ''Code Quality''),
             (''type'', ''Broad exception handling''),
             (''location'', ''Line '' @ str_of_nat line),
             (''description'', ''Using bare except clause''),
             (''fix'', ''Catch specific exceptions'')]]
           else [])
      | _ \<Rightarrow> [])\<close>

definition check_error_handling :: "parser \<Rightarrow> string \<Rightarrow> exn + issue_dict list" where
  \<open>check_error_handling ast_parse code =
     (case ast_parse code of
        Inl e \<Rightarrow> Inl e
      | Inr tree \<Rightarrow> Inr (concat (map error_handling_issue (walk tree))))\<close>

text \<open>
  \<^verbatim>\<open>analyze_code\<close> (lines 142 to 159). The dictionary literal is evaluated entry by
  entry, so the regular-expression checkers have run when the first parse is tried; an
  exception of either structural check leaves the function with nothing returned.
\<close>

definition analyze_code :: "re_module \<Rightarrow> parser \<Rightarrow> string \<Rightarrow> exn + (string \<times> issue_dict list) list" where
  \<open>analyze_code re ast_parse code =
     (let security_checker = SecurityPatternChecker_init;
          security_issues = check_credentials re security_checker code
                            @ check_injections re security_checker code;
          resource_issues = check_resources re security_checker code
      in case check_null_pointers ast_parse code of
           Inl e \<Rightarrow> Inl e
         | Inr null_pointers \<Rightarrow>
             (case check_error_handling ast_parse code of
                Inl e \<Rightarrow> Inl e
              | Inr error_handling \<Rightarrow> Inr [
                  (''security_issues'', security_issues),
                  (''resource_issues'', resource_issues),
                  (''logic_issues'', null_pointers @ error_handling)]))\<close>

section \<open>Sample inputs\<close>

text \<open>
  The string \<^verbatim>\<open>test_code\<close> of the module's own example (code_analysis_patterns.py,
  lines 177 to 185): every line of it is indented, and each comment says what the analysis
  is meant to report for it.
\<close>

definition test_code :: string where
  \<open>test_code = ''\<newline>    password = "secret123"  # Should flag this\<newline>    api_key = os.getenv("API_KEY")  # Should NOT flag this\<newline>    query = f"SELECT * FROM users WHERE id = {user_id}"  # Should flag this\<newline>    os.system(f"rm {filename}")  # Should flag this\<newline>    f = open("test.txt")  # Should flag this\<newline>    while True:  # Should flag this\<newline>        process_data()\<newline>    ''\<close>

text \<open>
  A regular-expression engine to run the analyser on sample files. For each pattern listed
  it knows one text that the pattern matches, and it reports the occurrences of that text,
  from left to right and without overlap; a pattern not listed matches nothing. On the
  sample files below this is what \<^verbatim>\<open>re\<close> answers.
\<close>

definition literal_instances :: "(string \<times> string) list" where
  \<open>literal_instances = [
     (''(?:password|api_key|secret|token|JWT_SECRET)'' @ BS # ''s*='' @ BS # ''s*["'' @ BS # ''\'][^"'' @ BS # ''\']+["'' @ BS # ''\']'',
      ''password = "x"''),
     (''(?:os'' @ BS # ''.getenv|process'' @ BS # ''.env|config'' @ BS # ''.get)'' @ BS # ''('',
      ''os.getenv(''),
     (''os'' @ BS # ''.getenv'',
      ''os.getenv''),
     (''(?:import.*?react|from'' @ BS # ''s+["'' @ BS # ''\']react["'' @ BS # ''\'])'',
      ''import react''),
     (''(?:from'' @ BS # ''s+flask'' @ BS # ''s+import|import'' @ BS # ''s+flask)'',
      ''import flask''),
     (''(?:password|api_key|secret|token|key)'' @ BS # ''s*='' @ BS # ''s*["'' @ BS # ''\'][^"'' @ BS # ''\']+["'' @ BS # ''\']'',
      ''password = "x"''),
     (''(?:os'' @ BS # ''.getenv|process'' @ BS # ''.env|config'' @ BS # ''.get|secrets'' @ BS # ''.get)'' @ BS # ''(["'' @ BS # ''\'][^"'' @ BS # ''\']+["'' @ BS # ''\']'' @ BS # '')'',
      ''os.getenv("X")'')]\<close>

fun find_literal :: "string \<Rightarrow> nat \<Rightarrow> nat \<Rightarrow> string \<Rightarrow> re_match list" where
  \<open>find_literal lit pos skip [] = []\<close>
| \<open>find_literal lit pos skip (c # cs) =
     (if skip = 0 \<and> startswith (c # cs) lit
      then \<lparr>start = pos, group0 = lit\<rparr> # find_literal lit (pos + 1) (length lit - 1) cs
      else find_literal lit (pos + 1) (skip - 1) cs)\<close>

definition sample_re :: re_module where
  \<open>sample_re = \<lparr>
     finditer = (\<lambda>pattern s.
       case map_of literal_instances pattern of
         None \<Rightarrow> []
       | Some lit \<Rightarrow> find_literal lit 0 0 s),
     search = (\<lambda>pattern s.
       case map_of literal_instances pattern of
         None \<Rightarrow> False
       | Some lit \<Rightarrow> str_in lit s)\<rparr>\<close>

text \<open>
  Two trees as \<^verbatim>\<open>ast.parse\<close> builds them. For the source \<^verbatim>\<open>a.b\<close>: a module, an
  expression statement, the attribute access on line 1, the name \<^verbatim>\<open>a\<close> and the two load
  contexts. For the four lines
  \<^verbatim>\<open>try:\<close>, \<^verbatim>\<open>    a.b\<close>, \<^verbatim>\<open>except:\<close>, \<^verbatim>\<open>    pass\<close>:
  a module, the try statement with its body (the attribute access, now on line 2) and its
  one handler, on line 3 and without a type, whose body is the pass statement.
  The sample parser knows these two sources and refuses every other one, as \<^verbatim>\<open>ast.parse\<close>
  refuses \<^verbatim>\<open>test_code\<close> for its indentation.
\<close>

definition attribute_tree :: ast_node where
  \<open>attribute_tree =
     Node OtherNode [
       Node OtherNode [
         Node (Attribute 1) [
           Node OtherNode [Node OtherNode []],
           Node OtherNode []]]]\<close>

definition try_except_tree :: ast_node where
  \<open>try_except_tree =
     Node OtherNode [
       Node OtherNode [
         Node OtherNode [
           Node (Attribute 2) [
             Node OtherNode [Node OtherNode []],
             Node OtherNode []]],
         Node (ExceptHandler True 3) [
           Node OtherNode []]]]\<close>

definition sample_parse :: parser where
  \<open>sample_parse code =
     (if code = ''a.b'' then Inr attribute_tree
      else if code = ''try:\<newline>    a.b\<newline>except:\<newline>    pass\<newline>'' then Inr try_except_tree
      else Inl SyntaxError)\<close>

section \<open>Facts about the rule loops\<close>

lemma make_issue_sel [simp]:
  "i_type (make_issue re name pattern fp content m) = name"
  "i_severity (make_issue re name pattern fp content m) = r_severity pattern"
  "i_line (make_issue re name pattern fp content m) = str_count content NL 0 (start m) + 1"
  "i_proof (make_issue re name pattern fp content m) = group0 m"
  "i_confidence (make_issue re name pattern fp content m) =
     calculate_confidence re \<lparr>s_type = name, s_severity = r_severity pattern, s_proof = group0 m, s_file = fp\<rparr>"
  by (simp_all add: make_issue_def)

lemma in_check_security_patterns:
  "i \<in> set (check_security_patterns re self fp content) \<longleftrightarrow>
     (\<exists>name pattern m. (name, pattern) \<in> set (security_patterns self)
        \<and> \<not> safe_pattern_found re pattern content
        \<and> m \<in> set (finditer re (r_pattern pattern) content)
        \<and> i = make_issue re name pattern fp content m)"
  by (auto simp: check_security_patterns_def)

lemma in_check_resource_patterns:
  "i \<in> set (check_resource_patterns re self fp content) \<longleftrightarrow>
     (\<exists>name pattern m. (name, pattern) \<in> set (resource_patterns self)
        \<and> m \<in> set (finditer re (r_pattern pattern) content)
        \<and> i = make_issue re name pattern fp content m)"
  by (auto simp: check_resource_patterns_def)

lemma check_framework_patterns_None: "check_framework_patterns re self None fp content = []"
  by (simp add: check_framework_patterns_def)

lemma check_framework_patterns_unknown: "map_of (framework_patterns self) fw = None \<Longrightarrow> check_framework_patterns re self (Some fw) fp content = []"
  by (simp add: check_framework_patterns_def)

lemma check_framework_patterns_known: "map_of (framework_patterns self) fw = Some rules \<Longrightarrow> fw \<noteq> [] \<Longrightarrow> check_framework_patterns re self (Some fw) fp content = concat (map (\<lambda>(name, pattern).
                      map (make_issue re name pattern fp content)
                        (finditer re (r_pattern pattern) content))
                    rules)"
  by (simp add: check_framework_patterns_def)

lemma in_rules_issues: "i \<in> set (concat (map (\<lambda>(name, pattern).
                      map (make_issue re name pattern fp content)
                        (finditer re (r_pattern pattern) content))
                    rules)) \<longleftrightarrow> (\<exists>name pattern m. (name, pattern) \<in> set rules
        \<and> m \<in> set (finditer re (r_pattern pattern) content)
        \<and> i = make_issue re name pattern fp content m)"
  by auto

lemma in_check_framework_patterns:
  "i \<in> set (check_framework_patterns re self framework fp content) \<longleftrightarrow>
     (\<exists>fw rules name pattern m. framework = Some fw \<and> fw \<noteq> []
        \<and> map_of (framework_patterns self) fw = Some rules
        \<and> (name, pattern) \<in> set rules
        \<and> m \<in> set (finditer re (r_pattern pattern) content)
        \<and> i = make_issue re name pattern fp content m)"
proof (cases framework)
  case None
  then show ?thesis by (simp add: check_framework_patterns_None)
next
  case (Some fw)
  show ?thesis
  proof (cases "fw = []")
    case True
    with Some show ?thesis by (simp add: check_framework_patterns_def)
  next
    case False
    show ?thesis
    proof (cases "map_of (framework_patterns self) fw")
      case None
      with Some False show ?thesis by (simp add: check_framework_patterns_unknown)
    next
      case rules: (Some rules)
      with Some False show ?thesis by (auto simp: check_framework_patterns_known [OF rules False])
    qed
  qed
qed

lemma set_sorted_issues [simp]: "set (sorted_issues issues) = set issues"
  by (simp add: sorted_issues_def)

lemma set_collect_issues:
  "set (collect_issues re self fp content) =
     set (check_security_patterns re self fp content)
     \<union> set (check_resource_patterns re self fp content)
     \<union> set (check_framework_patterns re self (detect_framework re content) fp content)"
  by (auto simp: collect_issues_def Let_def)

lemma analyze_file_Inr:
  "read_file fp = Inr content \<Longrightarrow>
   analyze_file re read_file self fp = Inr (sorted_issues (collect_issues re self fp content))"
  by (simp add: analyze_file_def)

lemma resource_types:
  "i \<in> set (check_resource_patterns re CodeAnalyzer_init fp content) \<Longrightarrow>
   i_type i \<in> {''file_leaks'', ''memory_leaks''}"
  by (auto simp: in_check_resource_patterns CodeAnalyzer_init_def init_resource_patterns_def)

lemma framework_types:
  "i \<in> set (check_framework_patterns re CodeAnalyzer_init framework fp content) \<Longrightarrow>
   i_type i \<in> {''hook_rules'', ''effect_deps'', ''memory_leak'', ''unsafe_html'', ''state_update'',
                ''error_handling'', ''no_validation'', ''sync_code''}"
  by (auto simp: in_check_framework_patterns CodeAnalyzer_init_def init_react_patterns_def
      init_express_patterns_def split: if_splits)

lemma security_names:
  "(name, pattern) \<in> set init_security_patterns \<Longrightarrow>
   name \<in> {''hardcoded_secrets'', ''sql_injection'', ''command_injection'', ''xss'',
            ''insecure_deserialization'', ''path_traversal'', ''weak_crypto''}"
  by (auto simp: init_security_patterns_def)

lemma distinct_security_names: "distinct (map fst init_security_patterns)"
  by (simp add: init_security_patterns_def)

lemma security_safe_nonempty:
  "(name, pattern) \<in> set init_security_patterns \<Longrightarrow> r_safe_pattern pattern = Some sp \<Longrightarrow> sp \<noteq> []"
  by (auto simp: init_security_patterns_def)

section \<open>Facts about strings, scores and the sort\<close>

lemma startswith_iff: "startswith s p \<longleftrightarrow> (\<exists>suffix. s = p @ suffix)"
  by (induction s p rule: startswith.induct) auto

lemma str_in_iff: "str_in sub s \<longleftrightarrow> (\<exists>before after. s = before @ sub @ after)"
proof (induction s)
  case Nil
  then show ?case by simp
next
  case (Cons c cs)
  show ?case
  proof
    assume "str_in sub (c # cs)"
    then consider "startswith (c # cs) sub" | "str_in sub cs" by auto
    then show "\<exists>before after. c # cs = before @ sub @ after"
    proof cases
      case 1
      then obtain suffix where "c # cs = sub @ suffix" by (auto simp: startswith_iff)
      then have "c # cs = [] @ sub @ suffix" by simp
      then show ?thesis by blast
    next
      case 2
      with Cons.IH obtain before after where "cs = before @ sub @ after" by blast
      then have "c # cs = (c # before) @ sub @ after" by simp
      then show ?thesis by blast
    qed
  next
    assume "\<exists>before after. c # cs = before @ sub @ after"
    then obtain before after where eq: "c # cs = before @ sub @ after" by blast
    show "str_in sub (c # cs)"
    proof (cases before)
      case Nil
      with eq have "startswith (c # cs) sub" by (auto simp: startswith_iff)
      then show ?thesis by simp
    next
      case (Cons b before')
      with eq have "cs = before' @ sub @ after" by simp
      with Cons.IH have "str_in sub cs" by blast
      then show ?thesis by simp
    qed
  qed
qed

lemma severity_base_cases:
  "severity_base severity =
     (if severity = ''Critical'' then 0.95 else if severity = ''High'' then 0.85
      else if severity = ''Medium'' then 0.75 else if severity = ''Low'' then 0.65 else 0.5)"
  by (simp add: severity_base_def)

lemma severity_base_bounds: "0 < severity_base severity \<and> severity_base severity \<le> 0.95"
  by (simp add: severity_base_cases)

lemma has_safe_pattern_cases:
  \<open>has_safe_pattern re issue \<longleftrightarrow>
     (s_type issue = ''hardcoded_secrets''
        \<and> (search re (''os'' @ BS # ''.getenv'') (s_proof issue)
           \<or> search re (''process'' @ BS # ''.env'') (s_proof issue)
           \<or> search re (''config'' @ BS # ''.get'') (s_proof issue)))
     \<or> (s_type issue = ''sql_injection''
        \<and> (search re (''parameterize'' @ BS # ''('') (s_proof issue)
           \<or> search re (''cursor'' @ BS # ''.execute'' @ BS # ''([^,]+,'' @ BS # ''s*'' @ BS # ''('') (s_proof issue)))\<close>
  by (simp add: has_safe_pattern_def safe_patterns_def)

lemma calculate_confidence_product:
  "calculate_confidence re issue =
     severity_base (s_severity issue)
     * (if str_in ''test'' (lower (s_file issue)) then 0.5 else 1)
     * (if has_safe_pattern re issue then 0.3 else 1)"
  by (simp add: calculate_confidence_def)

lemma calculate_confidence_bounds:
  "0 < calculate_confidence re issue \<and> calculate_confidence re issue \<le> 0.95"
proof -
  let ?b = "severity_base (s_severity issue)"
  let ?t = "if str_in ''test'' (lower (s_file issue)) then 0.5 else (1::real)"
  let ?s = "if has_safe_pattern re issue then 0.3 else (1::real)"
  have b: "0 < ?b" "?b \<le> 0.95" using severity_base_bounds by auto
  have t: "0 < ?t" "?t \<le> 1" by auto
  have s: "0 < ?s" "?s \<le> 1" by auto
  have "0 < ?b * ?t" using b t by simp
  moreover have "?b * ?t \<le> 0.95 * 1" using b t by (intro mult_mono) auto
  ultimately have bt: "0 < ?b * ?t" "?b * ?t \<le> 0.95" by auto
  have "0 < ?b * ?t * ?s" using bt s by simp
  moreover have "?b * ?t * ?s \<le> 0.95 * 1" using bt s by (intro mult_mono) auto
  ultimately show ?thesis by (simp add: calculate_confidence_product)
qed


lemma make_issue_origin:
  assumes "m \<in> set (finditer re (r_pattern rule) content)"
    and "i = make_issue re name rule file_path content m"
  shows "\<exists>pattern match. match \<in> set (finditer re pattern content)
           \<and> i_proof i = group0 match
           \<and> i_line i = str_count content NL 0 (start match) + 1
           \<and> i_confidence i = calculate_confidence re
                \<lparr>s_type = i_type i, s_severity = i_severity i, s_proof = i_proof i, s_file = file_path\<rparr>"
  using assms by (intro exI [of _ "r_pattern rule"] exI [of _ m]) simp

lemma collect_issues_origin:
  assumes "i \<in> set (collect_issues re self file_path content)"
  shows "\<exists>pattern match. match \<in> set (finditer re pattern content)
           \<and> i_proof i = group0 match
           \<and> i_line i = str_count content NL 0 (start match) + 1
           \<and> i_confidence i = calculate_confidence re
                \<lparr>s_type = i_type i, s_severity = i_severity i, s_proof = i_proof i, s_file = file_path\<rparr>"
proof -
  from assms consider
    (security) "i \<in> set (check_security_patterns re self file_path content)"
    | (resource) "i \<in> set (check_resource_patterns re self file_path content)"
    | (framework) "i \<in> set (check_framework_patterns re self (detect_framework re content) file_path content)"
    by (auto simp: set_collect_issues)
  then show ?thesis
  proof cases
    case security
    then obtain name and rule :: security_rule and m where "m \<in> set (finditer re (r_pattern rule) content)"
      "i = make_issue re name rule file_path content m"
      unfolding in_check_security_patterns by blast
    then show ?thesis by (rule make_issue_origin)
  next
    case resource
    then obtain name and rule :: rule and m where "m \<in> set (finditer re (r_pattern rule) content)"
      "i = make_issue re name rule file_path content m"
      unfolding in_check_resource_patterns by blast
    then show ?thesis by (rule make_issue_origin)
  next
    case framework
    then obtain name and rule :: rule and m where "m \<in> set (finditer re (r_pattern rule) content)"
      "i = make_issue re name rule file_path content m"
      unfolding in_check_framework_patterns by blast
    then show ?thesis by (rule make_issue_origin)
  qed
qed

lemma issue_key_le:
  "issue_key a \<le> issue_key b \<longleftrightarrow>
     severity_rank (i_severity a) < severity_rank (i_severity b)
     \<or> (severity_rank (i_severity a) = severity_rank (i_severity b) \<and> i_confidence b \<le> i_confidence a)"
  by (auto simp: issue_key_def less_eq_prod_def)

lemma issue_key_eq:
  "issue_key i = (r, - c) \<longleftrightarrow> severity_rank (i_severity i) = r \<and> i_confidence i = c"
  by (auto simp: issue_key_def)

lemma severity_rank_cases:
  "severity_rank severity =
     (if severity = ''Critical'' then 0 else if severity = ''High'' then 1
      else if severity = ''Medium'' then 2 else if severity = ''Low'' then 3 else 4)"
  by (simp add: severity_rank_def)

lemma sorted_issues_sorted:
  "sorted_wrt (\<lambda>a b. severity_rank (i_severity a) < severity_rank (i_severity b)
       \<or> (severity_rank (i_severity a) = severity_rank (i_severity b) \<and> i_confidence b \<le> i_confidence a))
     (sorted_issues issues)"
proof -
  have "sorted (map issue_key (sort_key issue_key issues))"
    by (rule sorted_sort_key)
  then have "sorted_wrt (\<lambda>a b. issue_key a \<le> issue_key b) (sorted_issues issues)"
    by (simp add: sorted_map sorted_issues_def)
  then show ?thesis
    by (simp add: issue_key_le)
qed

lemma sorted_issues_stable:
  "filter (\<lambda>i. severity_rank (i_severity i) = r \<and> i_confidence i = c) (sorted_issues issues)
     = filter (\<lambda>i. severity_rank (i_severity i) = r \<and> i_confidence i = c) issues"
  using sort_key_stable [of issue_key "(r, - c)" issues]
  by (simp add: issue_key_eq sorted_issues_def)

lemma sorted_issues_example:
  assumes "i_severity a = ''Medium''" "i_confidence a = 0.5"
    and "i_severity b = ''Critical''" "i_confidence b = 0.9"
    and "i_severity c = ''High''" "i_confidence c = 0.5"
    and "i_severity d = ''Critical''" "i_confidence d = 0.95"
  shows "sorted_issues [a, b, c, d] = [d, b, c, a]"
  using assms by (simp add: sorted_issues_def issue_key_def severity_rank_cases less_eq_prod_def)

section \<open>Facts about the structural checker\<close>

lemma no_confidence_null_pointer:
  "d \<in> set (null_pointer_issue node) \<Longrightarrow> map_of d ''confidence'' = None"
  by (cases "cls node") (auto simp: null_pointer_issue_def)

lemma no_confidence_error_handling:
  "d \<in> set (error_handling_issue node) \<Longrightarrow> map_of d ''confidence'' = None"
  by (cases "cls node") (auto simp: error_handling_issue_def split: if_splits)

section \<open>Facts about the statement-level model\<close>

lemma security_inner_loop:
  "fold (\<lambda>match s.
       if safe_pattern_found re pattern (v_content s) then s
       else append_issue (make_issue re name pattern file_path (v_content s) match) s) ms s
   = s\<lparr>v_issues := v_issues s
        @ map (make_issue re name pattern file_path (v_content s))
            (filter (\<lambda>match. \<not> safe_pattern_found re pattern (v_content s)) ms)\<rparr>"
  by (induction ms arbitrary: s) (simp_all add: append_issue_def)

lemma plain_inner_loop:
  "fold (\<lambda>match s. append_issue (make_issue re name pattern file_path (v_content s) match) s) ms s
   = s\<lparr>v_issues := v_issues s @ map (make_issue re name pattern file_path (v_content s)) ms\<rparr>"
  by (induction ms arbitrary: s) (simp_all add: append_issue_def)

lemma security_outer_loop:
  "fold (\<lambda>(name, pattern) s.
       fold (\<lambda>match s.
           if safe_pattern_found re pattern (v_content s) then s
           else append_issue (make_issue re name pattern file_path (v_content s) match) s)
         (finditer re (r_pattern pattern) (v_content s)) s) rules s
   = s\<lparr>v_issues := v_issues s
        @ concat (map (\<lambda>(name, pattern).
            map (make_issue re name pattern file_path (v_content s))
              (filter (\<lambda>match. \<not> safe_pattern_found re pattern (v_content s))
                 (finditer re (r_pattern pattern) (v_content s))))
          rules)\<rparr>"
  by (induction rules arbitrary: s) (simp_all add: security_inner_loop split_beta)

lemma plain_outer_loop:
  "fold (\<lambda>(name, pattern) s.
       fold (\<lambda>match s. append_issue (make_issue re name pattern file_path (v_content s) match) s)
         (finditer re (r_pattern pattern) (v_content s)) s) rules s
   = s\<lparr>v_issues := v_issues s
        @ concat (map (\<lambda>(name, pattern).
            map (make_issue re name pattern file_path (v_content s))
              (finditer re (r_pattern pattern) (v_content s)))
          rules)\<rparr>"
  by (induction rules arbitrary: s) (simp_all add: plain_inner_loop split_beta)

lemma security_loop_appends:
  "security_loop re file_path s
   = s\<lparr>v_issues := v_issues s @ check_security_patterns re (v_self s) file_path (v_content s)\<rparr>"
  by (simp add: security_loop_def security_outer_loop check_security_patterns_def)

lemma resource_loop_appends:
  "resource_loop re file_path s
   = s\<lparr>v_issues := v_issues s @ check_resource_patterns re (v_self s) file_path (v_content s)\<rparr>"
  by (simp add: resource_loop_def plain_outer_loop check_resource_patterns_def)

lemma framework_loop_appends:
  "framework_loop re file_path s
   = s\<lparr>v_issues := v_issues s
        @ check_framework_patterns re (v_self s) (v_framework s) file_path (v_content s)\<rparr>"
  by (simp add: framework_loop_def plain_outer_loop check_framework_patterns_def
      split: option.splits)

lemma run_analyze_file_result:
  "fst (run_analyze_file re read_file file_path s) = analyze_file re read_file (v_self s) file_path"
  by (simp add: run_analyze_file_def analyze_file_def collect_issues_def Let_def
      security_loop_appends resource_loop_appends framework_loop_appends split: sum.splits)

lemma run_analyze_file_self:
  "v_self (snd (run_analyze_file re read_file file_path s)) = v_self s"
  by (simp add: run_analyze_file_def Let_def
      security_loop_appends resource_loop_appends framework_loop_appends split: sum.splits)

lemma run_analyze_file_times_results:
  "fst (run_analyze_file_times n re read_file file_path s)
     = replicate n (analyze_file re read_file (v_self s) file_path)
   \<and> v_self (snd (run_analyze_file_times n re read_file file_path s)) = v_self s"
proof (induction n arbitrary: s)
  case 0
  show ?case by simp
next
  case (Suc n)
  obtain result s' where first: "run_analyze_file re read_file file_path s = (result, s')"
    by (cases "run_analyze_file re read_file file_path s")
  then have result: "result = analyze_file re read_file (v_self s) file_path"
    and self: "v_self s' = v_self s"
    using run_analyze_file_result [of re read_file file_path s]
      run_analyze_file_self [of re read_file file_path s] by simp_all
  obtain results s'' where rest: "run_analyze_file_times n re read_file file_path s' = (results, s'')"
    by (cases "run_analyze_file_times n re read_file file_path s'")
  with Suc.IH [of s'] self have "results = replicate n (analyze_file re read_file (v_self s) file_path)"
    and "v_self s'' = v_self s" by simp_all
  with first rest result show ?case by simp
qed

section \<open>Facts about the samples\<close>

lemma sample_null_pointers:
  \<open>check_null_pointers sample_parse ''a.b'' = Inr [[
       (''severity'', ''High''),
       (''category'', ''Logic''),
       (''type'', ''Null pointer''),
       (''location'', ''Line 1''),
       (''description'', ''Potential null pointer dereference''),
       (''fix'', ''Add null check before accessing attribute'')]]\<close>
  by (simp add: check_null_pointers_def sample_parse_def attribute_tree_def walk_def
      null_pointer_issue_def)

lemma sample_try_null_pointers:
  \<open>check_null_pointers sample_parse ''try:\<newline>    a.b\<newline>except:\<newline>    pass\<newline>'' = Inr [[
       (''severity'', ''High''),
       (''category'', ''Logic''),
       (''type'', ''Null pointer''),
       (''location'', ''Line 2''),
       (''description'', ''Potential null pointer dereference''),
       (''fix'', ''Add null check before accessing attribute'')]]\<close>
  by (simp add: check_null_pointers_def sample_parse_def try_except_tree_def walk_def
      null_pointer_issue_def)

lemma sample_try_error_handling:
  \<open>check_error_handling sample_parse ''try:\<newline>    a.b\<newline>except:\<newline>    pass\<newline>'' = Inr [[
       (''severity'', ''Medium''),
       (''category'', ''Code Quality''),
       (''type'', ''Broad exception handling''),
       (''location'', ''Line 3''),
       (''description'', ''Using bare except clause''),
       (''fix'', ''Catch specific exceptions'')]]\<close>
  by (simp add: check_error_handling_def sample_parse_def try_except_tree_def walk_def
      error_handling_issue_def)

lemma sample_file_findings:
  \<open>analyze_file sample_re (\<lambda>path. Inr ''a\<newline>b\<newline>password = "x"\<newline>'') CodeAnalyzer_init ''app.py''
     = Inr [\<lparr>i_type = ''hardcoded_secrets'', i_severity = ''Critical'',
              i_description = ''Hardcoded credentials in code'', i_line = 3,
              i_proof = ''password = "x"'', i_fix = ''Use environment variables or secure vault'',
              i_confidence = 0.95\<rparr>]\<close>
  by code_simp

lemma init_framework_names:
  "map fst (framework_patterns CodeAnalyzer_init) = [''react'', ''express'']"
  by (simp add: CodeAnalyzer_init_def)

lemma init_framework_django: "map_of (framework_patterns CodeAnalyzer_init) ''django'' = None"
  by (simp add: CodeAnalyzer_init_def)

lemma init_framework_flask: "map_of (framework_patterns CodeAnalyzer_init) ''flask'' = None"
  by (simp add: CodeAnalyzer_init_def)

section \<open>The claims\<close>

text \<open>
  C1. Suppression by a safe pattern is file-wide. Take a rule of the registry that defines a
  safe pattern, and a file in whose content the safe pattern is found anywhere. Then
  \<^verbatim>\<open>analyze_file\<close> returns, and none of the findings it returns is of that rule. Where
  the safe pattern is found plays no part: the hypothesis is \<^verbatim>\<open>re.search\<close> on the whole
  content. The rule names of the three tables are pairwise different, so the findings of a
  rule are those whose type is its name.
\<close>

theorem file_wide_suppression:
  assumes rule: "map_option r_safe_pattern (map_of (security_patterns CodeAnalyzer_init) name) = Some (Some safe)"
    and found: "search re safe content"
    and read: "read_file file_path = Inr content"
  shows "\<exists>issues. analyze_file re read_file CodeAnalyzer_init file_path = Inr issues
           \<and> filter (\<lambda>i. i_type i = name) issues = []"
proof -
  let ?issues = "sorted_issues (collect_issues re CodeAnalyzer_init file_path content)"
  from rule obtain pattern where
    mem: "(name, pattern) \<in> set init_security_patterns" and safe: "r_safe_pattern pattern = Some safe"
    by (auto simp: CodeAnalyzer_init_def dest: map_of_SomeD)
  have hit: "safe_pattern_found re pattern content"
    using security_safe_nonempty [OF mem safe] safe found
    by (simp add: safe_pattern_found_def)
  have "i_type i \<noteq> name" if i: "i \<in> set (collect_issues re CodeAnalyzer_init file_path content)" for i
  proof
    assume eq: "i_type i = name"
    from i consider
      (sec) "i \<in> set (check_security_patterns re CodeAnalyzer_init file_path content)"
      | (res) "i \<in> set (check_resource_patterns re CodeAnalyzer_init file_path content)"
      | (fw) "i \<in> set (check_framework_patterns re CodeAnalyzer_init (detect_framework re content) file_path content)"
      by (auto simp: set_collect_issues)
    then show False
    proof cases
      case sec
      then obtain name' pattern' m where
        mem': "(name', pattern') \<in> set init_security_patterns"
        and unsafe: "\<not> safe_pattern_found re pattern' content"
        and i_eq: "i = make_issue re name' pattern' file_path content m"
        by (auto simp: in_check_security_patterns CodeAnalyzer_init_def)
      from i_eq eq have "name' = name" by simp
      with mem mem' distinct_security_names have "pattern' = pattern"
        by (metis eq_key_imp_eq_value)
      with unsafe hit show False by simp
    next
      case res
      from resource_types [OF res] security_names [OF mem] eq show False by auto
    next
      case fw
      from framework_types [OF fw] security_names [OF mem] eq show False by auto
    qed
  qed
  then have "filter (\<lambda>i. i_type i = name) ?issues = []"
    by (auto simp: filter_empty_conv)
  with read show ?thesis by (simp add: analyze_file_def)
qed

text \<open>
  The file of the claim: a hardcoded secret on line 1, the call of \<^verbatim>\<open>os.getenv\<close> after it
  on line 2, and no finding for hardcoded secrets.
\<close>

theorem file_wide_suppression_witness:
  \<open>map_option r_safe_pattern (map_of (security_patterns CodeAnalyzer_init) ''hardcoded_secrets'')
     = Some (Some (''(?:os'' @ BS # ''.getenv|process'' @ BS # ''.env|config'' @ BS # ''.get)'' @ BS # ''(''))
   \<and> search sample_re (''(?:os'' @ BS # ''.getenv|process'' @ BS # ''.env|config'' @ BS # ''.get)'' @ BS # ''('')
         ''password = "x"\<newline>key = os.getenv("X")\<newline>''
   \<and> (\<exists>issues.
         analyze_file sample_re (\<lambda>path. Inr ''password = "x"\<newline>key = os.getenv("X")\<newline>'')
           CodeAnalyzer_init ''app.py'' = Inr issues
         \<and> filter (\<lambda>i. i_type i = ''hardcoded_secrets'') issues = [])\<close>
proof -
  let ?safe = \<open>''(?:os'' @ BS # ''.getenv|process'' @ BS # ''.env|config'' @ BS # ''.get)'' @ BS # ''(''\<close>
  let ?content = \<open>''password = "x"\<newline>key = os.getenv("X")\<newline>''\<close>
  have rule: \<open>map_option r_safe_pattern (map_of (security_patterns CodeAnalyzer_init) ''hardcoded_secrets'')
     = Some (Some ?safe)\<close>
    by (simp add: CodeAnalyzer_init_def init_security_patterns_def)
  have found: \<open>search sample_re ?safe ?content\<close>
    by (simp add: sample_re_def literal_instances_def)
  have read: \<open>(\<lambda>path::string. (Inr ?content :: exn + string)) ''app.py'' = Inr ?content\<close>
    by simp
  from file_wide_suppression [of "''hardcoded_secrets''" ?safe sample_re ?content "\<lambda>path. Inr ?content" "''app.py''", OF rule found read]
    rule found
  show ?thesis by blast
qed

text \<open>
  C2 says that a failed parse costs only the structural findings. The code does otherwise:
  \<^verbatim>\<open>check_null_pointers\<close> calls \<^verbatim>\<open>ast.parse\<close> with no handler around it, and neither
  has \<^verbatim>\<open>analyze_code\<close>, so the exception of the parser leaves \<^verbatim>\<open>analyze_code\<close> and the
  findings of the regular-expression checkers, already computed, are lost with it.
\<close>

theorem analyze_code_raises_when_parse_fails:
  assumes "ast_parse code = Inl e"
  shows "analyze_code re ast_parse code = Inl e"
  using assms by (simp add: analyze_code_def check_null_pointers_def Let_def)

text \<open>
  The module's own example string, which the parser refuses: the call raises. And one
  indented line with a hardcoded secret: \<^verbatim>\<open>check_credentials\<close> has its finding, and
  \<^verbatim>\<open>analyze_code\<close> raises all the same.
\<close>

theorem analyze_code_raises_when_parse_fails_witness:
  \<open>sample_parse test_code = Inl SyntaxError
   \<and> analyze_code sample_re sample_parse test_code = Inl SyntaxError
   \<and> sample_parse ''    password = "x"\<newline>'' = Inl SyntaxError
   \<and> length (check_credentials sample_re SecurityPatternChecker_init ''    password = "x"\<newline>'') = 1
   \<and> analyze_code sample_re sample_parse ''    password = "x"\<newline>'' = Inl SyntaxError\<close>
proof -
  have example: "sample_parse test_code = Inl SyntaxError"
    by (simp add: sample_parse_def test_code_def)
  have indented: \<open>sample_parse ''    password = "x"\<newline>'' = Inl SyntaxError\<close>
    by (simp add: sample_parse_def)
  have found: \<open>length (check_credentials sample_re SecurityPatternChecker_init ''    password = "x"\<newline>'') = 1\<close>
    by code_simp
  from example indented found
    analyze_code_raises_when_parse_fails [of sample_parse test_code SyntaxError sample_re, OF example]
    analyze_code_raises_when_parse_fails [of sample_parse \<open>''    password = "x"\<newline>''\<close> SyntaxError sample_re, OF indented]
  show ?thesis by (intro conjI)
qed



text \<open>
  C4. The confidence of a finding is the product of three factors: the base of its severity
  (0.95, 0.85, 0.75, 0.65, and 0.5 for any other severity), 0.5 when the lower-cased file path
  contains \<^verbatim>\<open>test\<close>, and 0.3 when the type is \<^verbatim>\<open>hardcoded_secrets\<close> or
  \<^verbatim>\<open>sql_injection\<close> and one of the safe sub-patterns of that type is found in the proof
  text. It lies between 0 and 0.95. Every finding of \<^verbatim>\<open>analyze_file\<close> carries the score
  computed from its own type, severity and proof and from the path of the file.
\<close>

theorem confidence_is_product_of_three_factors:
  \<open>calculate_confidence re issue =
       (if s_severity issue = ''Critical'' then 0.95
        else if s_severity issue = ''High'' then 0.85
        else if s_severity issue = ''Medium'' then 0.75
        else if s_severity issue = ''Low'' then 0.65
        else 0.5)
     * (if (\<exists>before after. lower (s_file issue) = before @ ''test'' @ after) then 0.5 else 1)
     * (if (s_type issue = ''hardcoded_secrets''
              \<and> (search re (''os'' @ BS # ''.getenv'') (s_proof issue)
                 \<or> search re (''process'' @ BS # ''.env'') (s_proof issue)
                 \<or> search re (''config'' @ BS # ''.get'') (s_proof issue)))
           \<or> (s_type issue = ''sql_injection''
              \<and> (search re (''parameterize'' @ BS # ''('') (s_proof issue)
                 \<or> search re (''cursor'' @ BS # ''.execute'' @ BS # ''([^,]+,'' @ BS # ''s*'' @ BS # ''('') (s_proof issue)))
        then 0.3 else 1)
   \<and> 0 \<le> calculate_confidence re issue
   \<and> calculate_confidence re issue \<le> 0.95
   \<and> (read_file file_path = Inr content \<longrightarrow>
        (\<exists>issues. analyze_file re read_file self file_path = Inr issues
           \<and> (\<forall>i \<in> set issues.
                 i_confidence i = calculate_confidence re
                   \<lparr>s_type = i_type i, s_severity = i_severity i, s_proof = i_proof i, s_file = file_path\<rparr>)))\<close>
proof (intro conjI impI)
  show \<open>calculate_confidence re issue =
       (if s_severity issue = ''Critical'' then 0.95
        else if s_severity issue = ''High'' then 0.85
        else if s_severity issue = ''Medium'' then 0.75
        else if s_severity issue = ''Low'' then 0.65
        else 0.5)
     * (if (\<exists>before after. lower (s_file issue) = before @ ''test'' @ after) then 0.5 else 1)
     * (if (s_type issue = ''hardcoded_secrets''
              \<and> (search re (''os'' @ BS # ''.getenv'') (s_proof issue)
                 \<or> search re (''process'' @ BS # ''.env'') (s_proof issue)
                 \<or> search re (''config'' @ BS # ''.get'') (s_proof issue)))
           \<or> (s_type issue = ''sql_injection''
              \<and> (search re (''parameterize'' @ BS # ''('') (s_proof issue)
                 \<or> search re (''cursor'' @ BS # ''.execute'' @ BS # ''([^,]+,'' @ BS # ''s*'' @ BS # ''('') (s_proof issue)))
        then 0.3 else 1)\<close>
    unfolding calculate_confidence_product severity_base_cases
      has_safe_pattern_cases [symmetric] str_in_iff [symmetric] ..
  show "0 \<le> calculate_confidence re issue"
    using calculate_confidence_bounds [of re issue] by simp
  show "calculate_confidence re issue \<le> 0.95"
    using calculate_confidence_bounds [of re issue] by simp
next
  assume read: "read_file file_path = Inr content"
  have "\<forall>i \<in> set (sorted_issues (collect_issues re self file_path content)).
          i_confidence i = calculate_confidence re
            \<lparr>s_type = i_type i, s_severity = i_severity i, s_proof = i_proof i, s_file = file_path\<rparr>"
    using collect_issues_origin [of _ re self file_path content] by auto
  with read show "\<exists>issues. analyze_file re read_file self file_path = Inr issues
           \<and> (\<forall>i \<in> set issues.
                 i_confidence i = calculate_confidence re
                   \<lparr>s_type = i_type i, s_severity = i_severity i, s_proof = i_proof i, s_file = file_path\<rparr>)"
    by (simp add: analyze_file_def)
qed

text \<open>
  A critical hardcoded secret whose matched text contains \<^verbatim>\<open>os.getenv\<close>, in a file under
  \<^verbatim>\<open>Tests/\<close>: all three factors apply. The sample file analysed under that path: its one
  finding has half the base score.
\<close>

theorem confidence_is_product_of_three_factors_witness:
  \<open>calculate_confidence sample_re
       \<lparr>s_type = ''hardcoded_secrets'', s_severity = ''Critical'',
        s_proof = ''password = "os.getenv"'', s_file = ''Tests/app.py''\<rparr> = 0.95 * 0.5 * 0.3
   \<and> (\<exists>issues.
         analyze_file sample_re (\<lambda>path. Inr ''a\<newline>b\<newline>password = "x"\<newline>'') CodeAnalyzer_init ''Tests/app.py'' = Inr issues
         \<and> map i_confidence issues = [0.95 * 0.5]
         \<and> (\<forall>i \<in> set issues.
               i_confidence i = calculate_confidence sample_re
                 \<lparr>s_type = i_type i, s_severity = i_severity i, s_proof = i_proof i, s_file = ''Tests/app.py''\<rparr>))\<close>
proof -
  let ?issue = \<open>\<lparr>s_type = ''hardcoded_secrets'', s_severity = ''Critical'',
        s_proof = ''password = "os.getenv"'', s_file = ''Tests/app.py''\<rparr>\<close>
  let ?content = \<open>''a\<newline>b\<newline>password = "x"\<newline>''\<close>
  let ?read = \<open>\<lambda>path::string. (Inr ?content :: exn + string)\<close>
  note claim = confidence_is_product_of_three_factors
    [where re = sample_re and issue = ?issue and read_file = ?read and file_path = "''Tests/app.py''"
       and content = ?content and self = CodeAnalyzer_init]
  have "lower ''Tests/app.py'' = [] @ ''test'' @ ''s/app.py''"
    by (simp add: lower_def lower_char_def)
  then have test: "\<exists>before after. lower (s_file ?issue) = before @ ''test'' @ after"
    unfolding scored_issue.simps by blast
  have safe: \<open>search sample_re (''os'' @ BS # ''.getenv'') (s_proof ?issue)\<close>
    by (simp add: sample_re_def literal_instances_def)
  from claim test safe have product: "calculate_confidence sample_re ?issue = 0.95 * 0.5 * 0.3"
    by simp
  have run: \<open>analyze_file sample_re ?read CodeAnalyzer_init ''Tests/app.py''
     = Inr [\<lparr>i_type = ''hardcoded_secrets'', i_severity = ''Critical'',
              i_description = ''Hardcoded credentials in code'', i_line = 3,
              i_proof = ''password = "x"'', i_fix = ''Use environment variables or secure vault'',
              i_confidence = 0.95 * 0.5\<rparr>]\<close>
    by code_simp
  from claim have findings: \<open>\<exists>issues. analyze_file sample_re ?read CodeAnalyzer_init ''Tests/app.py'' = Inr issues
           \<and> (\<forall>i \<in> set issues.
                 i_confidence i = calculate_confidence sample_re
                   \<lparr>s_type = i_type i, s_severity = i_severity i, s_proof = i_proof i, s_file = ''Tests/app.py''\<rparr>)\<close>
    by simp
  from product findings run show ?thesis by auto
qed

text \<open>
  C5. The list \<^verbatim>\<open>analyze_file\<close> returns is the list of findings in discovery order,
  sorted: of two findings the one returned first has the smaller severity rank or, at equal
  rank, a confidence at least as high. The sort is a permutation, and it is stable: the
  findings of one rank and one confidence keep their discovery order. The ranks are 0 for
  Critical, 1 for High, 2 for Medium, 3 for Low and 4 for every other severity. Four findings
  Medium/0.5, Critical/0.9, High/0.5, Critical/0.95 come out as the fourth, the second, the
  third, the first.
\<close>

theorem findings_sorted_by_rank_then_confidence_stably:
  \<open>sorted_wrt (\<lambda>a b. severity_rank (i_severity a) < severity_rank (i_severity b)
        \<or> (severity_rank (i_severity a) = severity_rank (i_severity b) \<and> i_confidence b \<le> i_confidence a))
      (sorted_issues issues)
   \<and> mset (sorted_issues issues) = mset issues
   \<and> (\<forall>r c. filter (\<lambda>i. severity_rank (i_severity i) = r \<and> i_confidence i = c) (sorted_issues issues)
             = filter (\<lambda>i. severity_rank (i_severity i) = r \<and> i_confidence i = c) issues)
   \<and> severity_rank ''Critical'' = 0 \<and> severity_rank ''High'' = 1
   \<and> severity_rank ''Medium'' = 2 \<and> severity_rank ''Low'' = 3
   \<and> (\<forall>severity. severity \<notin> {''Critical'', ''High'', ''Medium'', ''Low''} \<longrightarrow> severity_rank severity = 4)
   \<and> (i_severity a = ''Medium'' \<and> i_confidence a = 0.5
        \<and> i_severity b = ''Critical'' \<and> i_confidence b = 0.9
        \<and> i_severity c = ''High'' \<and> i_confidence c = 0.5
        \<and> i_severity d = ''Critical'' \<and> i_confidence d = 0.95
        \<longrightarrow> sorted_issues [a, b, c, d] = [d, b, c, a])
   \<and> (read_file file_path = Inr content \<longrightarrow>
        analyze_file re read_file self file_path
          = Inr (sorted_issues (collect_issues re self file_path content)))\<close>
proof (intro conjI allI impI)
  show "sorted_wrt (\<lambda>a b. severity_rank (i_severity a) < severity_rank (i_severity b)
        \<or> (severity_rank (i_severity a) = severity_rank (i_severity b) \<and> i_confidence b \<le> i_confidence a))
      (sorted_issues issues)"
    by (rule sorted_issues_sorted)
  show "mset (sorted_issues issues) = mset issues"
    by (simp add: sorted_issues_def)
  show "filter (\<lambda>i. severity_rank (i_severity i) = r \<and> i_confidence i = c) (sorted_issues issues)
             = filter (\<lambda>i. severity_rank (i_severity i) = r \<and> i_confidence i = c) issues" for r c
    by (rule sorted_issues_stable)
  show "severity_rank ''Critical'' = 0" "severity_rank ''High'' = 1"
    "severity_rank ''Medium'' = 2" "severity_rank ''Low'' = 3"
    by (simp_all add: severity_rank_cases)
  show "severity_rank severity = 4"
    if "severity \<notin> {''Critical'', ''High'', ''Medium'', ''Low''}" for severity
    using that by (simp add: severity_rank_cases)
  show "sorted_issues [a, b, c, d] = [d, b, c, a]"
    if "i_severity a = ''Medium'' \<and> i_confidence a = 0.5
        \<and> i_severity b = ''Critical'' \<and> i_confidence b = 0.9
        \<and> i_severity c = ''High'' \<and> i_confidence c = 0.5
        \<and> i_severity d = ''Critical'' \<and> i_confidence d = 0.95"
    using that by (intro sorted_issues_example) simp_all
  show "analyze_file re read_file self file_path
          = Inr (sorted_issues (collect_issues re self file_path content))"
    if "read_file file_path = Inr content"
    using that by (simp add: analyze_file_def)
qed

text \<open>The example above on four concrete findings, and a severity outside the table.\<close>

theorem findings_sorted_by_rank_then_confidence_stably_witness:
  \<open>sorted_issues [
       \<lparr>i_type = ''state_update'', i_severity = ''Medium'', i_description = ''d'', i_line = 1, i_proof = ''p'', i_fix = ''f'', i_confidence = 0.5\<rparr>,
       \<lparr>i_type = ''xss'', i_severity = ''Critical'', i_description = ''d'', i_line = 2, i_proof = ''p'', i_fix = ''f'', i_confidence = 0.9\<rparr>,
       \<lparr>i_type = ''file_leaks'', i_severity = ''High'', i_description = ''d'', i_line = 3, i_proof = ''p'', i_fix = ''f'', i_confidence = 0.5\<rparr>,
       \<lparr>i_type = ''weak_crypto'', i_severity = ''Critical'', i_description = ''d'', i_line = 4, i_proof = ''p'', i_fix = ''f'', i_confidence = 0.95\<rparr>]
     = [
       \<lparr>i_type = ''weak_crypto'', i_severity = ''Critical'', i_description = ''d'', i_line = 4, i_proof = ''p'', i_fix = ''f'', i_confidence = 0.95\<rparr>,
       \<lparr>i_type = ''xss'', i_severity = ''Critical'', i_description = ''d'', i_line = 2, i_proof = ''p'', i_fix = ''f'', i_confidence = 0.9\<rparr>,
       \<lparr>i_type = ''file_leaks'', i_severity = ''High'', i_description = ''d'', i_line = 3, i_proof = ''p'', i_fix = ''f'', i_confidence = 0.5\<rparr>,
       \<lparr>i_type = ''state_update'', i_severity = ''Medium'', i_description = ''d'', i_line = 1, i_proof = ''p'', i_fix = ''f'', i_confidence = 0.5\<rparr>]
   \<and> severity_rank ''Info'' = 4
   \<and> analyze_file sample_re (\<lambda>path. Inr ''a\<newline>b\<newline>password = "x"\<newline>'') CodeAnalyzer_init ''app.py''
       = Inr (sorted_issues (collect_issues sample_re CodeAnalyzer_init ''app.py'' ''a\<newline>b\<newline>password = "x"\<newline>''))\<close>
proof -
  let ?a = \<open>\<lparr>i_type = ''state_update'', i_severity = ''Medium'', i_description = ''d'', i_line = 1, i_proof = ''p'', i_fix = ''f'', i_confidence = 0.5\<rparr>\<close>
  let ?b = \<open>\<lparr>i_type = ''xss'', i_severity = ''Critical'', i_description = ''d'', i_line = 2, i_proof = ''p'', i_fix = ''f'', i_confidence = 0.9\<rparr>\<close>
  let ?c = \<open>\<lparr>i_type = ''file_leaks'', i_severity = ''High'', i_description = ''d'', i_line = 3, i_proof = ''p'', i_fix = ''f'', i_confidence = 0.5\<rparr>\<close>
  let ?d = \<open>\<lparr>i_type = ''weak_crypto'', i_severity = ''Critical'', i_description = ''d'', i_line = 4, i_proof = ''p'', i_fix = ''f'', i_confidence = 0.95\<rparr>\<close>
  let ?content = \<open>''a\<newline>b\<newline>password = "x"\<newline>''\<close>
  note claim = findings_sorted_by_rank_then_confidence_stably
    [where a = ?a and b = ?b and c = ?c and d = ?d
       and read_file = \<open>\<lambda>path::string. (Inr ?content :: exn + string)\<close> and file_path = "''app.py''"
       and content = ?content and re = sample_re and self = CodeAnalyzer_init]
  have given: "i_severity ?a = ''Medium'' \<and> i_confidence ?a = 0.5
        \<and> i_severity ?b = ''Critical'' \<and> i_confidence ?b = 0.9
        \<and> i_severity ?c = ''High'' \<and> i_confidence ?c = 0.5
        \<and> i_severity ?d = ''Critical'' \<and> i_confidence ?d = 0.95"
    by simp
  have other: "''Info'' \<notin> {''Critical'', ''High'', ''Medium'', ''Low''}"
    by simp
  note rest = claim [THEN conjunct2, THEN conjunct2, THEN conjunct2, THEN conjunct2,
    THEN conjunct2, THEN conjunct2, THEN conjunct2]
  note unknown = rest [THEN conjunct1]
  note example = rest [THEN conjunct2, THEN conjunct1]
  note on_file = rest [THEN conjunct2, THEN conjunct2]
  have "sorted_issues [?a, ?b, ?c, ?d] = [?d, ?b, ?c, ?a]"
    using example given by (rule mp)
  moreover have "severity_rank ''Info'' = 4"
    using unknown [rule_format, OF other] .
  moreover have "analyze_file sample_re (\<lambda>path. Inr ?content) CodeAnalyzer_init ''app.py''
       = Inr (sorted_issues (collect_issues sample_re CodeAnalyzer_init ''app.py'' ?content))"
    using on_file by (rule mp) (rule refl)
  ultimately show ?thesis by (intro conjI)
qed

text \<open>
  C6, as claimed, fails: the structural checker's finding for the attribute access in the
  source \<^verbatim>\<open>a.b\<close> is a dictionary of six keys, and \<^verbatim>\<open>confidence\<close> is not one of them.
  Nothing in code_analysis_patterns.py computes a score.
\<close>

theorem structural_finding_carries_no_confidence:
  \<open>check_null_pointers sample_parse ''a.b'' = Inr [[
       (''severity'', ''High''),
       (''category'', ''Logic''),
       (''type'', ''Null pointer''),
       (''location'', ''Line 1''),
       (''description'', ''Potential null pointer dereference''),
       (''fix'', ''Add null check before accessing attribute'')]]
   \<and> map_of [
       (''severity'', ''High''),
       (''category'', ''Logic''),
       (''type'', ''Null pointer''),
       (''location'', ''Line 1''),
       (''description'', ''Potential null pointer dereference''),
       (''fix'', ''Add null check before accessing attribute'')] ''confidence'' = None\<close>
  by (simp add: check_null_pointers_def sample_parse_def attribute_tree_def walk_def
      null_pointer_issue_def)

text \<open>
  C6, amended. Every finding that \<^verbatim>\<open>analyze_file\<close> returns is scored, with a confidence
  between 0 and 1. The findings of the structural checker, for attribute accesses and for
  bare except handlers, carry no confidence.
\<close>

theorem analyze_file_findings_scored_structural_ones_not:
  \<open>(read_file file_path = Inr content \<longrightarrow>
      (\<exists>issues. analyze_file re read_file self file_path = Inr issues
         \<and> (\<forall>i \<in> set issues. 0 \<le> i_confidence i \<and> i_confidence i \<le> 1)))
   \<and> (\<forall>issues. check_null_pointers ast_parse code = Inr issues \<longrightarrow>
         (\<forall>d \<in> set issues. map_of d ''confidence'' = None))
   \<and> (\<forall>issues. check_error_handling ast_parse code = Inr issues \<longrightarrow>
         (\<forall>d \<in> set issues. map_of d ''confidence'' = None))\<close>
proof (intro conjI allI impI)
  assume read: "read_file file_path = Inr content"
  have "0 \<le> i_confidence i \<and> i_confidence i \<le> 1"
    if "i \<in> set (collect_issues re self file_path content)" for i
  proof -
    from collect_issues_origin [OF that] obtain issue where
      "i_confidence i = calculate_confidence re issue" by blast
    with calculate_confidence_bounds [of re issue] show ?thesis by simp
  qed
  with read show "\<exists>issues. analyze_file re read_file self file_path = Inr issues
         \<and> (\<forall>i \<in> set issues. 0 \<le> i_confidence i \<and> i_confidence i \<le> 1)"
    by (simp add: analyze_file_def)
next
  fix issues
  assume "check_null_pointers ast_parse code = Inr issues"
  then show "\<forall>d \<in> set issues. map_of d ''confidence'' = None"
    by (auto simp: check_null_pointers_def no_confidence_null_pointer split: sum.splits)
next
  fix issues
  assume "check_error_handling ast_parse code = Inr issues"
  then show "\<forall>d \<in> set issues. map_of d ''confidence'' = None"
    by (auto simp: check_error_handling_def no_confidence_error_handling split: sum.splits)
qed

text \<open>
  One scored finding of \<^verbatim>\<open>analyze_file\<close>, and the two structural findings for a source
  with an attribute access and a bare except handler, neither with a confidence.
\<close>

theorem analyze_file_findings_scored_structural_ones_not_witness:
  \<open>(\<exists>issues.
       analyze_file sample_re (\<lambda>path. Inr ''a\<newline>b\<newline>password = "x"\<newline>'') CodeAnalyzer_init ''app.py'' = Inr issues
       \<and> map i_confidence issues = [0.95]
       \<and> (\<forall>i \<in> set issues. 0 \<le> i_confidence i \<and> i_confidence i \<le> 1))
   \<and> (\<exists>issues.
       check_null_pointers sample_parse ''try:\<newline>    a.b\<newline>except:\<newline>    pass\<newline>'' = Inr issues
       \<and> map (\<lambda>d. map_of d ''type'') issues = [Some ''Null pointer'']
       \<and> (\<forall>d \<in> set issues. map_of d ''confidence'' = None))
   \<and> (\<exists>issues.
       check_error_handling sample_parse ''try:\<newline>    a.b\<newline>except:\<newline>    pass\<newline>'' = Inr issues
       \<and> map (\<lambda>d. map_of d ''type'') issues = [Some ''Broad exception handling'']
       \<and> (\<forall>d \<in> set issues. map_of d ''confidence'' = None))\<close>
proof -
  let ?content = \<open>''a\<newline>b\<newline>password = "x"\<newline>''\<close>
  let ?code = \<open>''try:\<newline>    a.b\<newline>except:\<newline>    pass\<newline>''\<close>
  note claim = analyze_file_findings_scored_structural_ones_not
    [where read_file = \<open>\<lambda>path::string. (Inr ?content :: exn + string)\<close> and file_path = "''app.py''"
       and content = ?content and re = sample_re and self = CodeAnalyzer_init
       and ast_parse = sample_parse and code = ?code]
  note scored = claim [THEN conjunct1, THEN mp, OF refl]
  note null_pointers = claim [THEN conjunct2, THEN conjunct1, THEN spec, THEN mp, OF sample_try_null_pointers]
  note error_handling = claim [THEN conjunct2, THEN conjunct2, THEN spec, THEN mp, OF sample_try_error_handling]
  from scored have "\<exists>issues.
       analyze_file sample_re (\<lambda>path. Inr ?content) CodeAnalyzer_init ''app.py'' = Inr issues
       \<and> map i_confidence issues = [0.95]
       \<and> (\<forall>i \<in> set issues. 0 \<le> i_confidence i \<and> i_confidence i \<le> 1)"
    by (simp add: sample_file_findings)
  moreover from null_pointers have "\<exists>issues.
       check_null_pointers sample_parse ?code = Inr issues
       \<and> map (\<lambda>d. map_of d ''type'') issues = [Some ''Null pointer'']
       \<and> (\<forall>d \<in> set issues. map_of d ''confidence'' = None)"
    by (simp add: sample_try_null_pointers)
  moreover from error_handling have "\<exists>issues.
       check_error_handling sample_parse ?code = Inr issues
       \<and> map (\<lambda>d. map_of d ''type'') issues = [Some ''Broad exception handling'']
       \<and> (\<forall>d \<in> set issues. map_of d ''confidence'' = None)"
    by (simp add: sample_try_error_handling)
  ultimately show ?thesis by (intro conjI)
qed

text \<open>
  C7. Analysis is deterministic and leaves the registry alone. Run statement by statement on
  a store, a call of \<^verbatim>\<open>analyze_file\<close> writes the variables \<^verbatim>\<open>issues\<close>, \<^verbatim>\<open>content\<close> and
  \<^verbatim>\<open>framework\<close> and nothing else: the analyser object in the store after the call is the
  one before it. What the call returns is \<open>analyze_file\<close> of the engine, the file read and
  the registry; it does not depend on what the variables held when the call started, so two
  stores with the same registry give the same findings. Any number of calls in a row on the
  same path return the same result each time, and leave the registry as it was.
\<close>

theorem repeated_calls_same_findings_registry_unchanged:
  \<open>v_self (snd (run_analyze_file re read_file file_path s)) = v_self s
   \<and> fst (run_analyze_file re read_file file_path s) = analyze_file re read_file (v_self s) file_path
   \<and> (v_self s' = v_self s \<longrightarrow>
        fst (run_analyze_file re read_file file_path s') = fst (run_analyze_file re read_file file_path s))
   \<and> fst (run_analyze_file_times n re read_file file_path s)
        = replicate n (fst (run_analyze_file re read_file file_path s))
   \<and> v_self (snd (run_analyze_file_times n re read_file file_path s)) = v_self s\<close>
  using run_analyze_file_times_results [of n re read_file file_path s]
  by (simp add: run_analyze_file_result run_analyze_file_self)

text \<open>
  Two calls in a row on the sample file, from fresh variables. And one call from a store
  whose variables hold the leavings of some other call: the same finding is returned, the
  variables are overwritten, the registry is untouched.
\<close>

theorem repeated_calls_same_findings_registry_unchanged_witness:
  \<open>fst (run_analyze_file_times 2 sample_re (\<lambda>path. Inr ''a\<newline>b\<newline>password = "x"\<newline>'') ''app.py''
         \<lparr>v_self = CodeAnalyzer_init, v_issues = [], v_content = [], v_framework = None\<rparr>)
     = [Inr [\<lparr>i_type = ''hardcoded_secrets'', i_severity = ''Critical'',
              i_description = ''Hardcoded credentials in code'', i_line = 3,
              i_proof = ''password = "x"'', i_fix = ''Use environment variables or secure vault'',
              i_confidence = 0.95\<rparr>],
        Inr [\<lparr>i_type = ''hardcoded_secrets'', i_severity = ''Critical'',
              i_description = ''Hardcoded credentials in code'', i_line = 3,
              i_proof = ''password = "x"'', i_fix = ''Use environment variables or secure vault'',
              i_confidence = 0.95\<rparr>]]
   \<and> v_self (snd (run_analyze_file_times 2 sample_re (\<lambda>path. Inr ''a\<newline>b\<newline>password = "x"\<newline>'') ''app.py''
         \<lparr>v_self = CodeAnalyzer_init, v_issues = [], v_content = [], v_framework = None\<rparr>))
     = CodeAnalyzer_init
   \<and> run_analyze_file sample_re (\<lambda>path. Inr ''a\<newline>b\<newline>password = "x"\<newline>'') ''app.py''
         \<lparr>v_self = CodeAnalyzer_init,
          v_issues = [\<lparr>i_type = ''xss'', i_severity = ''Critical'', i_description = ''d'', i_line = 7,
                       i_proof = ''p'', i_fix = ''f'', i_confidence = 0.95\<rparr>],
          v_content = ''innerHTML ='', v_framework = Some ''react''\<rparr>
     = (Inr [\<lparr>i_type = ''hardcoded_secrets'', i_severity = ''Critical'',
              i_description = ''Hardcoded credentials in code'', i_line = 3,
              i_proof = ''password = "x"'', i_fix = ''Use environment variables or secure vault'',
              i_confidence = 0.95\<rparr>],
        \<lparr>v_self = CodeAnalyzer_init,
         v_issues = [\<lparr>i_type = ''hardcoded_secrets'', i_severity = ''Critical'',
              i_description = ''Hardcoded credentials in code'', i_line = 3,
              i_proof = ''password = "x"'', i_fix = ''Use environment variables or secure vault'',
              i_confidence = 0.95\<rparr>],
         v_content = ''a\<newline>b\<newline>password = "x"\<newline>'', v_framework = None\<rparr>)\<close>
proof -
  let ?read = \<open>\<lambda>path::string. (Inr ''a\<newline>b\<newline>password = "x"\<newline>'' :: exn + string)\<close>
  let ?fresh = \<open>\<lparr>v_self = CodeAnalyzer_init, v_issues = [], v_content = [], v_framework = None\<rparr>\<close>
  let ?used = \<open>\<lparr>v_self = CodeAnalyzer_init,
          v_issues = [\<lparr>i_type = ''xss'', i_severity = ''Critical'', i_description = ''d'', i_line = 7,
                       i_proof = ''p'', i_fix = ''f'', i_confidence = 0.95\<rparr>],
          v_content = ''innerHTML ='', v_framework = Some ''react''\<rparr>\<close>
  let ?finding = \<open>\<lparr>i_type = ''hardcoded_secrets'', i_severity = ''Critical'',
              i_description = ''Hardcoded credentials in code'', i_line = 3,
              i_proof = ''password = "x"'', i_fix = ''Use environment variables or secure vault'',
              i_confidence = 0.95\<rparr>\<close>
  note claim = repeated_calls_same_findings_registry_unchanged
    [where re = sample_re and read_file = ?read and file_path = "''app.py''" and s = ?fresh
       and s' = ?used and n = 2]
  have same_self: "v_self ?used = v_self ?fresh"
    by simp
  from claim have one: "fst (run_analyze_file sample_re ?read ''app.py'' ?fresh) = Inr [?finding]"
    by (simp add: sample_file_findings)
  from claim one
  have twice: "fst (run_analyze_file_times 2 sample_re ?read ''app.py'' ?fresh) = [Inr [?finding], Inr [?finding]]"
    by (simp add: numeral_2_eq_2)
  from claim
  have registry: "v_self (snd (run_analyze_file_times 2 sample_re ?read ''app.py'' ?fresh)) = CodeAnalyzer_init"
    by simp
  from claim [THEN conjunct2, THEN conjunct2, THEN conjunct1, THEN mp, OF same_self] one
  have result: "fst (run_analyze_file sample_re ?read ''app.py'' ?used) = Inr [?finding]"
    by simp
  have after: "snd (run_analyze_file sample_re ?read ''app.py'' ?used)
     = \<lparr>v_self = CodeAnalyzer_init, v_issues = [?finding],
        v_content = ''a\<newline>b\<newline>password = \"x\"\<newline>'', v_framework = None\<rparr>"
    by code_simp
  from result after
  have "run_analyze_file sample_re ?read ''app.py'' ?used
     = (Inr [?finding],
        \<lparr>v_self = CodeAnalyzer_init, v_issues = [?finding],
         v_content = ''a\<newline>b\<newline>password = \"x\"\<newline>'', v_framework = None\<rparr>)"
    by (simp add: prod_eq_iff)
  with twice registry show ?thesis by (intro conjI)
qed

text \<open>
  C8. The framework detector tries the four signatures in the order react, express, django,
  flask and returns the first framework whose signature is found in the content, \<open>None\<close>
  when none is. Its result depends on the content alone (and the engine): it takes neither
  the analyser object nor the path. When several signatures match, the earliest wins: the
  entry at index \<open>i\<close> is returned as soon as it matches and no entry before it does.
\<close>

theorem detect_framework_first_signature_wins:
  \<open>detect_framework re content =
     (if search re (''(?:import.*?react|from'' @ BS # ''s+["'' @ BS # ''\']react["'' @ BS # ''\'])'') content
        then Some ''react''
      else if search re (''(?:import.*?express|require'' @ BS # ''(["'' @ BS # ''\']express["'' @ BS # ''\'])'') content
        then Some ''express''
      else if search re (''(?:from'' @ BS # ''s+django|import'' @ BS # ''s+django)'') content
        then Some ''django''
      else if search re (''(?:from'' @ BS # ''s+flask'' @ BS # ''s+import|import'' @ BS # ''s+flask)'') content
        then Some ''flask''
      else None)
   \<and> map fst frameworks = [''react'', ''express'', ''django'', ''flask'']
   \<and> (detect_framework re content = None
        \<longleftrightarrow> (\<forall>(framework, pattern) \<in> set frameworks. \<not> search re pattern content))
   \<and> (\<forall>i < length frameworks.
         search re (snd (frameworks ! i)) content
         \<and> (\<forall>j < i. \<not> search re (snd (frameworks ! j)) content)
         \<longrightarrow> detect_framework re content = Some (fst (frameworks ! i)))\<close>
proof (intro conjI allI impI)
  show \<open>detect_framework re content =
     (if search re (''(?:import.*?react|from'' @ BS # ''s+["'' @ BS # ''\']react["'' @ BS # ''\'])'') content
        then Some ''react''
      else if search re (''(?:import.*?express|require'' @ BS # ''(["'' @ BS # ''\']express["'' @ BS # ''\'])'') content
        then Some ''express''
      else if search re (''(?:from'' @ BS # ''s+django|import'' @ BS # ''s+django)'') content
        then Some ''django''
      else if search re (''(?:from'' @ BS # ''s+flask'' @ BS # ''s+import|import'' @ BS # ''s+flask)'') content
        then Some ''flask''
      else None)\<close>
    by (simp add: detect_framework_def frameworks_def)
  show "map fst frameworks = [''react'', ''express'', ''django'', ''flask'']"
    by (simp add: frameworks_def)
  show "detect_framework re content = None
        \<longleftrightarrow> (\<forall>(framework, pattern) \<in> set frameworks. \<not> search re pattern content)"
    by (simp add: detect_framework_def frameworks_def)
next
  fix i
  assume i: "i < length frameworks"
    and first: "search re (snd (frameworks ! i)) content
         \<and> (\<forall>j < i. \<not> search re (snd (frameworks ! j)) content)"
  have loop: "detect_loop re content table = Some (fst (table ! k))"
    if "k < length table" "search re (snd (table ! k)) content"
      "\<forall>j < k. \<not> search re (snd (table ! j)) content" for table k
    using that
  proof (induction table arbitrary: k)
    case Nil
    then show ?case by simp
  next
    case (Cons entry table)
    obtain framework pattern where entry: "entry = (framework, pattern)" by (cases entry)
    show ?case
    proof (cases k)
      case 0
      with Cons.prems entry show ?thesis by simp
    next
      case (Suc k')
      with Cons.prems have "\<not> search re (snd ((entry # table) ! 0)) content" by blast
      with entry have miss: "\<not> search re pattern content" by simp
      from Suc Cons.prems have "k' < length table" "search re (snd (table ! k')) content"
        by simp_all
      moreover from Suc Cons.prems have "\<forall>j < k'. \<not> search re (snd (table ! j)) content"
        by (metis Suc_less_eq nth_Cons_Suc)
      ultimately have "detect_loop re content table = Some (fst (table ! k'))"
        by (rule Cons.IH)
      with Suc entry miss show ?thesis by simp
    qed
  qed
  from i first show "detect_framework re content = Some (fst (frameworks ! i))"
    unfolding detect_framework_def by (intro loop) simp_all
qed

text \<open>
  A content that imports react and flask matches the first and the last signature;
  react is returned. A content with no import gives \<open>None\<close>.
\<close>

theorem detect_framework_first_signature_wins_witness:
  \<open>search sample_re (snd (frameworks ! 0)) ''import react\<newline>import flask\<newline>''
   \<and> search sample_re (snd (frameworks ! 3)) ''import react\<newline>import flask\<newline>''
   \<and> detect_framework sample_re ''import react\<newline>import flask\<newline>'' = Some ''react''
   \<and> detect_framework sample_re ''a.b'' = None\<close>
proof -
  let ?content = \<open>''import react\<newline>import flask\<newline>''\<close>
  note claim = detect_framework_first_signature_wins [where re = sample_re]
  have react: "search sample_re (snd (frameworks ! 0)) ?content"
    by (simp add: frameworks_def sample_re_def literal_instances_def)
  have flask: "search sample_re (snd (frameworks ! 3)) ?content"
    by (simp add: frameworks_def sample_re_def literal_instances_def)
  have first: "search sample_re (snd (frameworks ! 0)) ?content
         \<and> (\<forall>j < 0. \<not> search sample_re (snd (frameworks ! j)) ?content)"
    using react by simp
  have len: "0 < length frameworks"
    by (simp add: frameworks_def)
  have "detect_framework sample_re ?content = Some (fst (frameworks ! 0))"
    using claim [where content = ?content, THEN conjunct2, THEN conjunct2, THEN conjunct2,
        THEN spec, THEN mp, OF len, THEN mp, OF first] .
  then have wins: "detect_framework sample_re ?content = Some ''react''"
    by (simp add: frameworks_def)
  have none: "\<forall>(framework, pattern) \<in> set frameworks. \<not> search sample_re pattern ''a.b''"
    by (simp add: frameworks_def sample_re_def literal_instances_def)
  have "detect_framework sample_re ''a.b'' = None"
    using claim [where content = "''a.b''", THEN conjunct2, THEN conjunct2, THEN conjunct1] none
    by (rule iffD2)
  with react flask wins show ?thesis by (intro conjI)
qed

text \<open>
  C9. \<^verbatim>\<open>check_credentials\<close> reports one finding for every match of the hardcoded-secret
  pattern, in order, with the matched text as proof. The \<^verbatim>\<open>safe_patterns\<close> entry is never
  consulted: replacing that entry by any other pattern, and \<^verbatim>\<open>re.search\<close> by any other
  function, leaves the result as it is. In particular the findings are as many as the matches
  also when the safe pattern is found in the content.
\<close>

theorem check_credentials_never_consults_safe_patterns:
  \<open>map (\<lambda>d. map_of d ''proof'') (check_credentials re self code)
     = map (\<lambda>match. Some (group0 match))
         (finditer re (cp_hardcoded_secrets (spc_credential_patterns self)) code)
   \<and> check_credentials
         (re\<lparr>search := other_search\<rparr>)
         (self\<lparr>spc_credential_patterns := (spc_credential_patterns self)\<lparr>cp_safe_patterns := other_safe\<rparr>\<rparr>)
         code
       = check_credentials re self code
   \<and> (search re (cp_safe_patterns (spc_credential_patterns self)) code \<longrightarrow>
        length (check_credentials re self code)
          = length (finditer re (cp_hardcoded_secrets (spc_credential_patterns self)) code))\<close>
  by (simp add: check_credentials_def location_of_def)

text \<open>
  A secret on line 1 and a call matching \<^verbatim>\<open>safe_patterns\<close> on line 2: the secret is
  reported.
\<close>

theorem check_credentials_never_consults_safe_patterns_witness:
  \<open>search sample_re (cp_safe_patterns (spc_credential_patterns SecurityPatternChecker_init))
       ''password = "x"\<newline>key = os.getenv("X")\<newline>''
   \<and> finditer sample_re (cp_hardcoded_secrets (spc_credential_patterns SecurityPatternChecker_init))
       ''password = "x"\<newline>key = os.getenv("X")\<newline>''
       = [\<lparr>start = 0, group0 = ''password = "x"''\<rparr>]
   \<and> length (check_credentials sample_re SecurityPatternChecker_init
       ''password = "x"\<newline>key = os.getenv("X")\<newline>'') = 1
   \<and> map (\<lambda>d. map_of d ''proof'') (check_credentials sample_re SecurityPatternChecker_init
       ''password = "x"\<newline>key = os.getenv("X")\<newline>'') = [Some ''password = "x"'']\<close>
proof -
  let ?code = \<open>''password = "x"\<newline>key = os.getenv("X")\<newline>''\<close>
  note claim = check_credentials_never_consults_safe_patterns
    [where re = sample_re and self = SecurityPatternChecker_init and code = ?code]
  have safe: "search sample_re (cp_safe_patterns (spc_credential_patterns SecurityPatternChecker_init)) ?code"
    by code_simp
  have matches: \<open>finditer sample_re (cp_hardcoded_secrets (spc_credential_patterns SecurityPatternChecker_init)) ?code
       = [\<lparr>start = 0, group0 = ''password = "x"''\<rparr>]\<close>
    by code_simp
  from claim [THEN conjunct2, THEN conjunct2, THEN mp, OF safe]
  have "length (check_credentials sample_re SecurityPatternChecker_init ?code) = 1"
    by (simp add: matches)
  moreover from claim [THEN conjunct1]
  have \<open>map (\<lambda>d. map_of d ''proof'') (check_credentials sample_re SecurityPatternChecker_init ?code)
      = [Some ''password = "x"'']\<close>
    by (simp only: matches list.map re_match.simps)
  ultimately show ?thesis using safe matches by (intro conjI)
qed

text \<open>
  C10. The framework table has entries for react and express only. When the detected
  framework is django or flask, the framework branch adds nothing, and \<^verbatim>\<open>analyze_file\<close>
  returns what it returns when no framework is detected: the sorted findings of the security
  and the resource rules.
\<close>

theorem django_and_flask_activate_no_rules:
  assumes detected: "detect_framework re content = Some ''django'' \<or> detect_framework re content = Some ''flask''"
    and read: "read_file file_path = Inr content"
  shows "map fst (framework_patterns CodeAnalyzer_init) = [''react'', ''express'']
    \<and> check_framework_patterns re CodeAnalyzer_init (detect_framework re content) file_path content = []
    \<and> analyze_file re read_file CodeAnalyzer_init file_path
        = Inr (sorted_issues
            (check_security_patterns re CodeAnalyzer_init file_path content
             @ check_resource_patterns re CodeAnalyzer_init file_path content
             @ check_framework_patterns re CodeAnalyzer_init None file_path content))"
proof -
  from detected
  have none: "check_framework_patterns re CodeAnalyzer_init (detect_framework re content) file_path content = []"
    by (auto simp: check_framework_patterns_unknown init_framework_django init_framework_flask)
  with read have "analyze_file re read_file CodeAnalyzer_init file_path
        = Inr (sorted_issues
            (check_security_patterns re CodeAnalyzer_init file_path content
             @ check_resource_patterns re CodeAnalyzer_init file_path content
             @ check_framework_patterns re CodeAnalyzer_init None file_path content))"
    by (simp add: analyze_file_def collect_issues_def check_framework_patterns_None)
  with none init_framework_names show ?thesis by (intro conjI)
qed

text \<open>A file that imports flask and holds a hardcoded secret.\<close>

theorem django_and_flask_activate_no_rules_witness:
  \<open>detect_framework sample_re ''import flask\<newline>password = "x"\<newline>'' = Some ''flask''
   \<and> check_framework_patterns sample_re CodeAnalyzer_init (Some ''flask'') ''app.py''
       ''import flask\<newline>password = "x"\<newline>'' = []
   \<and> analyze_file sample_re (\<lambda>path. Inr ''import flask\<newline>password = "x"\<newline>'') CodeAnalyzer_init ''app.py''
       = Inr (sorted_issues
            (check_security_patterns sample_re CodeAnalyzer_init ''app.py'' ''import flask\<newline>password = "x"\<newline>''
             @ check_resource_patterns sample_re CodeAnalyzer_init ''app.py'' ''import flask\<newline>password = "x"\<newline>''
             @ check_framework_patterns sample_re CodeAnalyzer_init None ''app.py'' ''import flask\<newline>password = "x"\<newline>''))\<close>
proof -
  let ?content = \<open>''import flask\<newline>password = "x"\<newline>''\<close>
  have flask: "detect_framework sample_re ?content = Some ''flask''"
    by code_simp
  then have detected: "detect_framework sample_re ?content = Some ''django''
      \<or> detect_framework sample_re ?content = Some ''flask''" ..
  have read: "(\<lambda>path::string. (Inr ?content :: exn + string)) ''app.py'' = Inr ?content"
    by (rule refl)
  note claim = django_and_flask_activate_no_rules
    [where re = sample_re and content = ?content
       and read_file = \<open>\<lambda>path::string. (Inr ?content :: exn + string)\<close> and file_path = "''app.py''",
     OF detected read]
  from claim [THEN conjunct2, THEN conjunct1]
  have "check_framework_patterns sample_re CodeAnalyzer_init (Some ''flask'') ''app.py'' ?content = []"
    by (simp only: flask)
  with flask claim [THEN conjunct2, THEN conjunct2] show ?thesis by (intro conjI)
qed

end
